theory Spec2Isabelle
  imports Main
begin

section \<open>Data model\<close>

text \<open>
  The service keeps two collections, \<open>User\<close> (accounts) and \<open>Student\<close> (profiles), and
  answers HTTP requests on them (\<^verbatim>\<open>server.js\<close>). Record identifiers (\<^verbatim>\<open>ObjectId\<close>) are
  opaque; they are modelled as natural numbers. A date is its time value, in milliseconds
  since the epoch. A string is a JavaScript string whose code units lie below 256: a
  \<open>char\<close> is the code unit of that number.
\<close>

type_synonym oid = nat
type_synonym date = int

text \<open>
  Modelled from the spec: the \<open>User\<close> model (\<^verbatim>\<open>models/User.js\<close>) is not among the sources.
  The spec gives an Account an identifier, an email, a salted password hash and a role that
  is admin or student; \<^verbatim>\<open>server.js\<close> reads and writes exactly the fields \<^verbatim>\<open>_id\<close>,
  \<^verbatim>\<open>email\<close>, \<^verbatim>\<open>password\<close> and \<^verbatim>\<open>role\<close>.
\<close>

datatype role = Admin | Student

record user =
  user_id :: oid
  user_email :: string
  user_password :: string
  user_role :: role

text \<open>
  \<^verbatim>\<open>studentSchema\<close> of \<^verbatim>\<open>Student.js\<close>, path by path. A path of a stored document
  holds a value of its type, or it is null or absent (\<open>None\<close>); so does an element of
  the \<^verbatim>\<open>skills\<close> array.
\<close>

record student =
  st_id :: oid
  st_userId :: "oid option"
  st_email :: "string option"
  st_fullName :: "string option"
  st_department :: "string option"
  st_project :: "string option"
  st_skills :: "string option list option"
  st_school :: "string option"
  st_course :: "string option"
  st_yearLevel :: "string option"
  st_contactNumber :: "string option"
  st_address :: "string option"
  st_startDate :: "string option"
  st_endDate :: "string option"
  st_createdAt :: "date option"
  st_updatedAt :: "date option"

record store =
  users :: "user list"
  students :: "student list"

subsection \<open>Exceptions and responses\<close>

text \<open>
  What an \<^verbatim>\<open>await\<close> inside a handler's \<^verbatim>\<open>try\<close> block can throw: a storage error, a
  Mongoose validation error or cast error, a \<^verbatim>\<open>TypeError\<close> of the handler's own code,
  bcryptjs's \<^verbatim>\<open>Illegal arguments\<close> error and jsonwebtoken's error for a missing key.
\<close>

datatype exn =
  MongoError | ValidationError | CastError | TypeError | IllegalArguments | JwtError

text \<open>
  The session token: the payload \<^verbatim>\<open>{ userId, role }\<close> given to \<^verbatim>\<open>jwt.sign\<close>, the
  \<^verbatim>\<open>iat\<close> and \<^verbatim>\<open>exp\<close> claims that \<^verbatim>\<open>expiresIn\<close> adds (in seconds), and the key it is
  signed with. Decoding a token reads these fields.
\<close>

record token =
  tok_userId :: oid
  tok_role :: role
  tok_iat :: int
  tok_exp :: int
  tok_key :: string

text \<open>The object \<^verbatim>\<open>user: { id, email, role }\<close> of the login and register responses.\<close>

record account_view =
  view_id :: oid
  view_email :: string
  view_role :: role

datatype payload =
    LoginOk role token account_view
  | RegisterOk token account_view
  | StudentOk student
  | Success
  | Failure string

datatype response = Response nat payload

subsection \<open>Request values\<close>

text \<open>
  A value of a parsed JSON request body. The members of an object are listed in the order
  of the text; where a key is repeated, the last member is the object's (\<open>obj_get\<close>).
\<close>

datatype json =
    JNull
  | JBool bool
  | JNum int
  | JStr string
  | JArr "json list"
  | JObj "(string \<times> json) list"

definition obj_get :: "(string \<times> json) list \<Rightarrow> string \<Rightarrow> json option" where
  "obj_get m k = map_of (rev m) k"

definition is_object :: "json \<Rightarrow> bool" where
  "is_object v = (case v of JObj m \<Rightarrow> True | _ \<Rightarrow> False)"

subsection \<open>Environment\<close>

text \<open>
  \<open>config\<close> is what is fixed for the life of the process: the signing key
  \<^verbatim>\<open>process.env.JWT_SECRET\<close> (absent when the environment does not define it) and the
  libraries, which are parameters of the model:
  \<^item> the two functions of bcryptjs on strings, \<open>bcrypt_hash password rounds salt\<close> and
    \<open>bcrypt_compare password hash\<close>;
  \<^item> Mongoose's casts of a request value to the type of a schema path
    (\<^verbatim>\<open>String\<close>, \<^verbatim>\<open>Date\<close>, \<^verbatim>\<open>ObjectId\<close>, and the array of \<^verbatim>\<open>String\<close>): \<open>None\<close>
    when the cast throws, \<open>Some None\<close> when it yields null, \<open>Some (Some x)\<close> when it
    yields \<open>x\<close>;
  \<open>other_update\<close>, which is Mongoose and the storage engine on an update document that
    is not a plain assignment of schema paths (\<open>set_document\<close> below): given the request
    body and the current time, either the cast of the update throws, or it yields the
    change that the engine makes to the document it finds, which can fail in turn.

  \<open>io\<close> is what one request reads from the outside: the clock, the salt bcryptjs draws,
  the identifiers Mongoose generates for new documents, and for the k-th storage call of
  the request whether the storage engine answers it.
\<close>

record config =
  JWT_SECRET :: "string option"
  bcrypt_hash :: "string \<Rightarrow> nat \<Rightarrow> string \<Rightarrow> string"
  bcrypt_compare :: "string \<Rightarrow> string \<Rightarrow> bool"
  cast_String :: "json \<Rightarrow> string option option"
  cast_Date :: "json \<Rightarrow> date option option"
  cast_ObjectId :: "json \<Rightarrow> oid option option"
  cast_Strings :: "json \<Rightarrow> string option list option option"
  other_update :: "(string \<times> json) list \<Rightarrow> date \<Rightarrow> exn + (student \<Rightarrow> exn + student)"

record io =
  now :: date
  salt :: string
  new_user_id :: oid
  new_student_id :: oid
  storage_ok :: "nat \<Rightarrow> bool"

section \<open>Libraries\<close>

text \<open>
  \<^verbatim>\<open>bcrypt.hash(s, 10)\<close> and \<^verbatim>\<open>bcrypt.compare(s, hash)\<close> reject with
  \<^verbatim>\<open>Illegal arguments\<close> when \<open>s\<close> is not a string; here a value read from the request
  body is a string or \<^verbatim>\<open>undefined\<close> (\<open>None\<close>).
\<close>

definition js_bcrypt_hash :: "config \<Rightarrow> io \<Rightarrow> string option \<Rightarrow> nat \<Rightarrow> exn + string" where
  "js_bcrypt_hash cfg rq s rounds =
     (case s of
        None \<Rightarrow> Inl IllegalArguments
      | Some p \<Rightarrow> Inr (bcrypt_hash cfg p rounds (salt rq)))"

definition js_bcrypt_compare :: "config \<Rightarrow> string option \<Rightarrow> string \<Rightarrow> exn + bool" where
  "js_bcrypt_compare cfg s h =
     (case s of
        None \<Rightarrow> Inl IllegalArguments
      | Some p \<Rightarrow> Inr (bcrypt_compare cfg p h))"

text \<open>
  \<^verbatim>\<open>jwt.sign({ userId, role }, process.env.JWT_SECRET, { expiresIn: '7d' })\<close>: throws
  when the key is undefined or empty; otherwise the token is issued at the current second
  and expires seven days later.
\<close>

definition jwt_sign :: "config \<Rightarrow> io \<Rightarrow> oid \<Rightarrow> role \<Rightarrow> exn + token" where
  "jwt_sign cfg rq uid r =
     (case JWT_SECRET cfg of
        None \<Rightarrow> Inl JwtError
      | Some k \<Rightarrow>
          if k = [] then Inl JwtError
          else Inr \<lparr>tok_userId = uid, tok_role = r,
                    tok_iat = now rq div 1000,
                    tok_exp = now rq div 1000 + 7 * 24 * 60 * 60,
                    tok_key = k\<rparr>)"

subsection \<open>Collections\<close>

text \<open>
  A collection is the list of its documents in insertion order. \<^verbatim>\<open>findOne\<close> returns
  the first document that matches, \<^verbatim>\<open>create\<close> appends, \<^verbatim>\<open>findByIdAndDelete\<close>
  removes the first document with the identifier. An identifier in a filter is an
  \<^verbatim>\<open>ObjectId\<close> or null (\<open>None\<close>); null matches the documents whose path is null or
  absent, and no document's \<^verbatim>\<open>_id\<close>.
\<close>

definition User_findOne :: "store \<Rightarrow> string \<Rightarrow> user option" where
  "User_findOne s e = find (\<lambda>u. user_email u = e) (users s)"

text \<open>
  Modelled from the spec: \<^verbatim>\<open>User.create\<close> of the missing \<open>User\<close> model; the spec's
  credential store creates an Account from an email, a password hash and a role, under a
  store-assigned identifier.
\<close>

definition User_create :: "io \<Rightarrow> store \<Rightarrow> string \<Rightarrow> string \<Rightarrow> role \<Rightarrow> user \<times> store" where
  "User_create rq s e h r =
     (let u = \<lparr>user_id = new_user_id rq, user_email = e, user_password = h, user_role = r\<rparr>
      in (u, s\<lparr>users := users s @ [u]\<rparr>))"

fun remove_first :: "('a \<Rightarrow> bool) \<Rightarrow> 'a list \<Rightarrow> 'a list" where
  "remove_first P [] = []"
| "remove_first P (x # xs) = (if P x then xs else x # remove_first P xs)"

definition User_findByIdAndDelete :: "store \<Rightarrow> oid option \<Rightarrow> store" where
  "User_findByIdAndDelete s i =
     s\<lparr>users := remove_first (\<lambda>u. Some (user_id u) = i) (users s)\<rparr>"

definition Student_findOne :: "store \<Rightarrow> oid option \<Rightarrow> student option" where
  "Student_findOne s uid = find (\<lambda>d. st_userId d = uid) (students s)"

definition Student_findById :: "store \<Rightarrow> oid option \<Rightarrow> student option" where
  "Student_findById s i = find (\<lambda>d. Some (st_id d) = i) (students s)"

definition Student_findByIdAndDelete :: "store \<Rightarrow> oid option \<Rightarrow> store" where
  "Student_findByIdAndDelete s i =
     s\<lparr>students := remove_first (\<lambda>d. Some (st_id d) = i) (students s)\<rparr>"

section \<open>Login\<close>

text \<open>
  \<^verbatim>\<open>POST /api/login\<close>. The request body gives \<open>email\<close> and \<open>password\<close>; the handler's
  \<^verbatim>\<open>catch\<close> answers every exception with status 500.
\<close>

definition login_catch :: "exn \<Rightarrow> response" where
  "login_catch e = Response 500 (Failure ''Login failed'')"

definition public_view :: "user \<Rightarrow> account_view" where
  "public_view u = \<lparr>view_id = user_id u, view_email = user_email u, view_role = user_role u\<rparr>"

definition login :: "config \<Rightarrow> io \<Rightarrow> store \<Rightarrow> string \<Rightarrow> string option \<Rightarrow> response \<times> store" where
  "login cfg rq s email password =
     (if \<not> storage_ok rq 0 then (login_catch MongoError, s)
      else case User_findOne s email of
        None \<Rightarrow> (Response 401 (Failure ''Invalid credentials''), s)
      | Some u \<Rightarrow>
          (case js_bcrypt_compare cfg password (user_password u) of
             Inl e \<Rightarrow> (login_catch e, s)
           | Inr isMatch \<Rightarrow>
               if \<not> isMatch then (Response 401 (Failure ''Invalid credentials''), s)
               else (case jwt_sign cfg rq (user_id u) (user_role u) of
                       Inl e \<Rightarrow> (login_catch e, s)
                     | Inr t \<Rightarrow>
                         (Response 200 (LoginOk (user_role u) t (public_view u)), s))))"

section \<open>Register\<close>

subsection \<open>The skills string\<close>

text \<open>
  \<^verbatim>\<open>studentData.skills.split(',').map(s => s.trim()).filter(s => s)\<close>.
  \<^verbatim>\<open>split\<close> cuts at every separator and always returns at least one piece;
  \<^verbatim>\<open>trim\<close> removes white space and line terminators at both ends, which among the
  code units below 256 are tab, line feed, vertical tab, form feed, carriage return, space
  and no-break space; \<^verbatim>\<open>filter(s => s)\<close> keeps the non-empty strings.
\<close>

fun js_split :: "char \<Rightarrow> string \<Rightarrow> string list" where
  "js_split c [] = [[]]"
| "js_split c (x # xs) =
     (if x = c then [] # js_split c xs
      else (case js_split c xs of
              [] \<Rightarrow> [[x]]
            | p # ps \<Rightarrow> (x # p) # ps))"

definition is_white_space :: "char \<Rightarrow> bool" where
  "is_white_space c =
     (c = CHR 0x09 \<or> c = CHR 0x0A \<or> c = CHR 0x0B \<or> c = CHR 0x0C \<or> c = CHR 0x0D \<or>
      c = CHR 0x20 \<or> c = CHR 0xA0)"

definition js_trim :: "string \<Rightarrow> string" where
  "js_trim s = rev (dropWhile is_white_space (rev (dropWhile is_white_space s)))"

definition parse_skills :: "string \<Rightarrow> string list" where
  "parse_skills s = filter (\<lambda>x. x \<noteq> []) (map js_trim (js_split CHR '','' s))"

text \<open>
  The same list as the spec words it (an ordered sequence of trimmed, non-empty strings,
  derived by splitting a comma-separated input), written without the functions above.
  White space is given by the list of its code units. The trimmed piece is the piece
  without its leading white space and its trailing white space, cut out by position. The
  input is read from left to right, collecting the current piece; at a comma and at the
  end, the piece is trimmed and kept when something is left of it.
\<close>

definition white_space_chars :: string where
  "white_space_chars = [CHR 0x09, CHR 0x0A, CHR 0x0B, CHR 0x0C, CHR 0x0D, CHR 0x20, CHR 0xA0]"

definition spec_white_space :: "char \<Rightarrow> bool" where
  "spec_white_space c = (c \<in> set white_space_chars)"

definition spec_trim :: "string \<Rightarrow> string" where
  "spec_trim p =
     (let leading = length (takeWhile spec_white_space p);
          trailing = length (takeWhile spec_white_space (rev p))
      in take (length p - leading - trailing) (drop leading p))"

definition keep_piece :: "string \<Rightarrow> string list" where
  "keep_piece p = (if spec_trim p = [] then [] else [spec_trim p])"

fun spec_skills_from :: "string \<Rightarrow> string \<Rightarrow> string list" where
  "spec_skills_from acc [] = keep_piece (rev acc)"
| "spec_skills_from acc (c # cs) =
     (if c = CHR '','' then keep_piece (rev acc) @ spec_skills_from [] cs
      else spec_skills_from (c # acc) cs)"

definition spec_skills :: "string \<Rightarrow> string list" where
  "spec_skills s = spec_skills_from [] s"

subsection \<open>Creating the profile\<close>

text \<open>The object literal that the handler passes to \<^verbatim>\<open>Student.create\<close>.\<close>

record student_input =
  in_userId :: oid
  in_email :: string
  in_fullName :: "string option"
  in_department :: "string option"
  in_project :: "string option"
  in_skills :: "string list"
  in_school :: "string option"
  in_course :: "string option"
  in_yearLevel :: "string option"
  in_contactNumber :: "string option"
  in_address :: "string option"
  in_startDate :: "string option"
  in_endDate :: "string option"

text \<open>
  \<open>studentData\<close> is the rest of the request body after \<open>email\<close> and \<open>password\<close>: a
  JSON object with string values, read by key. Evaluating the literal throws a
  \<^verbatim>\<open>TypeError\<close> when \<^verbatim>\<open>skills\<close> is undefined.
\<close>

definition student_literal ::
  "oid \<Rightarrow> string \<Rightarrow> (string \<rightharpoonup> string) \<Rightarrow> exn + student_input" where
  "student_literal uid email studentData =
     (case studentData ''skills'' of
        None \<Rightarrow> Inl TypeError
      | Some sk \<Rightarrow>
          Inr \<lparr>in_userId = uid,
               in_email = email,
               in_fullName = studentData ''fullName'',
               in_department = studentData ''department'',
               in_project =
                 (if studentData ''department'' = Some ''IT'' then studentData ''project''
                  else None),
               in_skills = parse_skills sk,
               in_school = studentData ''school'',
               in_course = studentData ''course'',
               in_yearLevel = studentData ''yearLevel'',
               in_contactNumber = studentData ''contactNumber'',
               in_address = studentData ''address'',
               in_startDate = studentData ''startDate'',
               in_endDate = studentData ''endDate''\<rparr>)"

text \<open>
  Mongoose's \<^verbatim>\<open>required: true\<close> on a \<^verbatim>\<open>String\<close> path: the value must be a non-empty
  string. \<open>Student_validate\<close> runs it on the paths that \<^verbatim>\<open>studentSchema\<close> marks required
  (\<^verbatim>\<open>userId\<close> is always given).
\<close>

definition required_String :: "string option \<Rightarrow> bool" where
  "required_String v = (case v of None \<Rightarrow> False | Some x \<Rightarrow> x \<noteq> [])"

definition Student_validate :: "student_input \<Rightarrow> bool" where
  "Student_validate inp =
     (in_email inp \<noteq> [] \<and>
      required_String (in_fullName inp) \<and>
      required_String (in_department inp) \<and>
      required_String (in_school inp) \<and>
      required_String (in_course inp) \<and>
      required_String (in_yearLevel inp) \<and>
      required_String (in_contactNumber inp) \<and>
      required_String (in_address inp) \<and>
      required_String (in_startDate inp) \<and>
      required_String (in_endDate inp))"

text \<open>
  \<^verbatim>\<open>Student.create\<close>: validates, then saves (the third storage call of a registration);
  \<^verbatim>\<open>createdAt\<close> and \<^verbatim>\<open>updatedAt\<close> take their default \<^verbatim>\<open>Date.now\<close>.
\<close>

definition Student_create :: "io \<Rightarrow> store \<Rightarrow> student_input \<Rightarrow> exn + student \<times> store" where
  "Student_create rq s inp =
     (if \<not> Student_validate inp then Inl ValidationError
      else if \<not> storage_ok rq 2 then Inl MongoError
      else
        (let d = \<lparr>st_id = new_student_id rq,
                  st_userId = Some (in_userId inp),
                  st_email = Some (in_email inp),
                  st_fullName = in_fullName inp,
                  st_department = in_department inp,
                  st_project = in_project inp,
                  st_skills = Some (map Some (in_skills inp)),
                  st_school = in_school inp,
                  st_course = in_course inp,
                  st_yearLevel = in_yearLevel inp,
                  st_contactNumber = in_contactNumber inp,
                  st_address = in_address inp,
                  st_startDate = in_startDate inp,
                  st_endDate = in_endDate inp,
                  st_createdAt = Some (now rq),
                  st_updatedAt = Some (now rq)\<rparr>
         in Inr (d, s\<lparr>students := students s @ [d]\<rparr>)))"

subsection \<open>The handler\<close>

text \<open>
  \<^verbatim>\<open>POST /api/register\<close>, in the two steps the spec names: the account (lines 88 to
  100), which ends in a response or in the created account, and the profile (lines 102 to
  116), which ends in an exception or in the created profile. What was written before an
  exception stays written.
\<close>

definition register_catch :: "exn \<Rightarrow> response" where
  "register_catch e = Response 500 (Failure ''Registration failed'')"

definition create_account ::
  "config \<Rightarrow> io \<Rightarrow> store \<Rightarrow> string \<Rightarrow> string option \<Rightarrow> response + user \<times> store" where
  "create_account cfg rq s email password =
     (if \<not> storage_ok rq 0 then Inl (register_catch MongoError)
      else case User_findOne s email of
        Some existingUser \<Rightarrow> Inl (Response 400 (Failure ''Email already registered''))
      | None \<Rightarrow>
          (case js_bcrypt_hash cfg rq password 10 of
             Inl e \<Rightarrow> Inl (register_catch e)
           | Inr hashedPassword \<Rightarrow>
               if \<not> storage_ok rq 1 then Inl (register_catch MongoError)
               else Inr (User_create rq s email hashedPassword Student)))"

definition create_profile ::
  "io \<Rightarrow> store \<Rightarrow> user \<Rightarrow> string \<Rightarrow> (string \<rightharpoonup> string) \<Rightarrow> exn + student \<times> store" where
  "create_profile rq s u email studentData =
     (case student_literal (user_id u) email studentData of
        Inl e \<Rightarrow> Inl e
      | Inr inp \<Rightarrow> Student_create rq s inp)"

definition register ::
  "config \<Rightarrow> io \<Rightarrow> store \<Rightarrow> string \<Rightarrow> string option \<Rightarrow> (string \<rightharpoonup> string) \<Rightarrow> response \<times> store"
  where
  "register cfg rq s email password studentData =
     (case create_account cfg rq s email password of
        Inl r \<Rightarrow> (r, s)
      | Inr (u, s1) \<Rightarrow>
          (case create_profile rq s1 u email studentData of
             Inl e \<Rightarrow> (register_catch e, s1)
           | Inr (d, s2) \<Rightarrow>
               (case jwt_sign cfg rq (user_id u) (user_role u) of
                  Inl e \<Rightarrow> (register_catch e, s2)
                | Inr t \<Rightarrow> (Response 200 (RegisterOk t (public_view u)), s2))))"

text \<open>
  The keys of \<open>studentData\<close> that the handler reads, and among them those that fill a
  path that \<^verbatim>\<open>studentSchema\<close> marks \<^verbatim>\<open>required\<close>.
\<close>

definition read_fields :: "string list" where
  "read_fields =
     [''fullName'', ''department'', ''project'', ''skills'', ''school'', ''course'',
      ''yearLevel'', ''contactNumber'', ''address'', ''startDate'', ''endDate'']"

definition required_profile_fields :: "string list" where
  "required_profile_fields =
     [''fullName'', ''department'', ''school'', ''course'', ''yearLevel'', ''contactNumber'',
      ''address'', ''startDate'', ''endDate'']"

section \<open>Profiles\<close>

text \<open>
  The three handlers take an identifier from the request path, a string. Mongoose casts it
  to an \<^verbatim>\<open>ObjectId\<close> when it casts the filter, and the query is rejected when the cast
  throws.
\<close>

text \<open>\<^verbatim>\<open>GET /api/student/:userId\<close>.\<close>

definition get_student :: "config \<Rightarrow> io \<Rightarrow> store \<Rightarrow> string \<Rightarrow> response \<times> store" where
  "get_student cfg rq s userId =
     (case cast_ObjectId cfg (JStr userId) of
        None \<Rightarrow> (Response 500 (Failure ''Failed to get profile''), s)
      | Some uid \<Rightarrow>
          if \<not> storage_ok rq 0 then (Response 500 (Failure ''Failed to get profile''), s)
          else case Student_findOne s uid of
            None \<Rightarrow> (Response 404 (Failure ''Student not found''), s)
          | Some d \<Rightarrow> (Response 200 (StudentOk d), s))"

subsection \<open>The update document\<close>

text \<open>
  \<^verbatim>\<open>PUT /api/student/:userId\<close> passes \<^verbatim>\<open>{ ...req.body, updatedAt: new Date() }\<close>
  to \<^verbatim>\<open>findOneAndUpdate\<close>. Mongoose moves every member whose key is not an update
  operator into \<^verbatim>\<open>$set\<close>, on top of the members of the \<^verbatim>\<open>$set\<close> object of the body
  when there is one, casts each value to the type of its path, and has the storage engine
  assign the paths. \<open>set_document\<close> is that assignment, for a body whose members, at top
  level and under \<^verbatim>\<open>$set\<close>, name paths declared in \<^verbatim>\<open>studentSchema\<close> and give them
  values that are not objects; every other body is left to \<open>other_update\<close>.
\<close>

definition declared_paths :: "string list" where
  "declared_paths =
     [''userId'', ''email'', ''fullName'', ''department'', ''project'', ''skills'', ''school'',
      ''course'', ''yearLevel'', ''contactNumber'', ''address'', ''startDate'', ''endDate'',
      ''createdAt'', ''updatedAt'']"

definition plain_members :: "(string \<times> json) list \<Rightarrow> bool" where
  "plain_members m = list_all (\<lambda>(k, v). k \<in> set declared_paths \<and> \<not> is_object v) m"

definition set_document :: "(string \<times> json) list \<Rightarrow> (string \<times> json) list option" where
  "set_document body =
     (let top = filter (\<lambda>(k, v). k \<noteq> ''$set'') body in
      if \<not> plain_members top then None
      else case obj_get body ''$set'' of
        None \<Rightarrow> Some top
      | Some (JObj m) \<Rightarrow> if plain_members m then Some (m @ top) else None
      | Some _ \<Rightarrow> None)"

text \<open>
  What the assignment does to one path: nothing when the document does not name the path
  (\<open>Keep\<close>), and otherwise the cast of the named value (\<open>Put\<close>), unless the cast throws
  (\<open>None\<close>). The \<^verbatim>\<open>updatedAt\<close> of the body is never cast: the handler's own member
  replaces it.
\<close>

datatype 'a change = Keep | Put "'a option"

definition path_change ::
  "(json \<Rightarrow> 'a option option) \<Rightarrow> (string \<times> json) list \<Rightarrow> string \<Rightarrow> 'a change option" where
  "path_change c doc k =
     (case obj_get doc k of
        None \<Rightarrow> Some Keep
      | Some v \<Rightarrow> map_option Put (c v))"

definition new_value :: "'a change option \<Rightarrow> 'a option \<Rightarrow> 'a option" where
  "new_value ch old = (case ch of Some (Put x) \<Rightarrow> x | _ \<Rightarrow> old)"

definition update_castable :: "config \<Rightarrow> (string \<times> json) list \<Rightarrow> bool" where
  "update_castable cfg doc =
     (path_change (cast_ObjectId cfg) doc ''userId'' \<noteq> None \<and>
      path_change (cast_String cfg) doc ''email'' \<noteq> None \<and>
      path_change (cast_String cfg) doc ''fullName'' \<noteq> None \<and>
      path_change (cast_String cfg) doc ''department'' \<noteq> None \<and>
      path_change (cast_String cfg) doc ''project'' \<noteq> None \<and>
      path_change (cast_Strings cfg) doc ''skills'' \<noteq> None \<and>
      path_change (cast_String cfg) doc ''school'' \<noteq> None \<and>
      path_change (cast_String cfg) doc ''course'' \<noteq> None \<and>
      path_change (cast_String cfg) doc ''yearLevel'' \<noteq> None \<and>
      path_change (cast_String cfg) doc ''contactNumber'' \<noteq> None \<and>
      path_change (cast_String cfg) doc ''address'' \<noteq> None \<and>
      path_change (cast_String cfg) doc ''startDate'' \<noteq> None \<and>
      path_change (cast_String cfg) doc ''endDate'' \<noteq> None \<and>
      path_change (cast_Date cfg) doc ''createdAt'' \<noteq> None)"

definition apply_set :: "config \<Rightarrow> (string \<times> json) list \<Rightarrow> date \<Rightarrow> student \<Rightarrow> student" where
  "apply_set cfg doc t d =
     \<lparr>st_id = st_id d,
      st_userId = new_value (path_change (cast_ObjectId cfg) doc ''userId'') (st_userId d),
      st_email = new_value (path_change (cast_String cfg) doc ''email'') (st_email d),
      st_fullName = new_value (path_change (cast_String cfg) doc ''fullName'') (st_fullName d),
      st_department =
        new_value (path_change (cast_String cfg) doc ''department'') (st_department d),
      st_project = new_value (path_change (cast_String cfg) doc ''project'') (st_project d),
      st_skills = new_value (path_change (cast_Strings cfg) doc ''skills'') (st_skills d),
      st_school = new_value (path_change (cast_String cfg) doc ''school'') (st_school d),
      st_course = new_value (path_change (cast_String cfg) doc ''course'') (st_course d),
      st_yearLevel =
        new_value (path_change (cast_String cfg) doc ''yearLevel'') (st_yearLevel d),
      st_contactNumber =
        new_value (path_change (cast_String cfg) doc ''contactNumber'') (st_contactNumber d),
      st_address = new_value (path_change (cast_String cfg) doc ''address'') (st_address d),
      st_startDate =
        new_value (path_change (cast_String cfg) doc ''startDate'') (st_startDate d),
      st_endDate = new_value (path_change (cast_String cfg) doc ''endDate'') (st_endDate d),
      st_createdAt =
        new_value (path_change (cast_Date cfg) doc ''createdAt'') (st_createdAt d),
      st_updatedAt = Some t\<rparr>"

text \<open>
  The cast of the update document, before any storage call: it throws, or it yields the
  change to make to the document found.
\<close>

definition cast_update ::
  "config \<Rightarrow> (string \<times> json) list \<Rightarrow> date \<Rightarrow> exn + (student \<Rightarrow> exn + student)" where
  "cast_update cfg body t =
     (case set_document body of
        None \<Rightarrow> other_update cfg body t
      | Some doc \<Rightarrow>
          if update_castable cfg doc then Inr (\<lambda>d. Inr (apply_set cfg doc t d))
          else Inl CastError)"

subsection \<open>The handlers\<close>

text \<open>
  \<^verbatim>\<open>findOneAndUpdate(filter, update, { new: true })\<close>: updates the first document that
  matches and returns it as updated, or returns null and writes nothing.
\<close>

fun update_first :: "('a \<Rightarrow> bool) \<Rightarrow> ('a \<Rightarrow> 'a) \<Rightarrow> 'a list \<Rightarrow> 'a list" where
  "update_first P f [] = []"
| "update_first P f (x # xs) = (if P x then f x # xs else x # update_first P f xs)"

definition update_student ::
  "config \<Rightarrow> io \<Rightarrow> store \<Rightarrow> string \<Rightarrow> (string \<times> json) list \<Rightarrow> response \<times> store" where
  "update_student cfg rq s userId body =
     (case cast_ObjectId cfg (JStr userId) of
        None \<Rightarrow> (Response 500 (Failure ''Update failed''), s)
      | Some uid \<Rightarrow>
          (case cast_update cfg body (now rq) of
             Inl e \<Rightarrow> (Response 500 (Failure ''Update failed''), s)
           | Inr change \<Rightarrow>
               if \<not> storage_ok rq 0 then (Response 500 (Failure ''Update failed''), s)
               else case Student_findOne s uid of
                 None \<Rightarrow> (Response 404 (Failure ''Student not found''), s)
               | Some d \<Rightarrow>
                   (case change d of
                      Inl e \<Rightarrow> (Response 500 (Failure ''Update failed''), s)
                    | Inr d' \<Rightarrow>
                        (Response 200 (StudentOk d'),
                         s\<lparr>students :=
                             update_first (\<lambda>x. st_userId x = uid) (\<lambda>x. d') (students s)\<rparr>))))"

text \<open>
  \<^verbatim>\<open>DELETE /api/student/:studentId\<close>: three storage calls, the account's deletion
  before the profile's.
\<close>

definition delete_student :: "config \<Rightarrow> io \<Rightarrow> store \<Rightarrow> string \<Rightarrow> response \<times> store" where
  "delete_student cfg rq s studentId =
     (case cast_ObjectId cfg (JStr studentId) of
        None \<Rightarrow> (Response 500 (Failure ''Delete failed''), s)
      | Some sid \<Rightarrow>
          if \<not> storage_ok rq 0 then (Response 500 (Failure ''Delete failed''), s)
          else case Student_findById s sid of
            None \<Rightarrow> (Response 404 (Failure ''Student not found''), s)
          | Some d \<Rightarrow>
              if \<not> storage_ok rq 1 then (Response 500 (Failure ''Delete failed''), s)
              else
                (let s1 = User_findByIdAndDelete s (st_userId d) in
                 if \<not> storage_ok rq 2 then (Response 500 (Failure ''Delete failed''), s1)
                 else (Response 200 Success, Student_findByIdAndDelete s1 sid)))"

subsection \<open>What a plain assignment leaves\<close>

text \<open>
  The value \<open>new\<close> that a path holds after the assignment of a body that names schema
  paths only, where it held \<open>old\<close>: \<open>old\<close> when the body does not name the path, and
  otherwise what the cast of the named value yields.
\<close>

definition assigned ::
  "(json \<Rightarrow> 'a option option) \<Rightarrow> (string \<times> json) list \<Rightarrow> string \<Rightarrow> 'a option \<Rightarrow> 'a option \<Rightarrow> bool"
  where
  "assigned c body k old new =
     (case obj_get body k of
        None \<Rightarrow> new = old
      | Some v \<Rightarrow> c v = Some new)"

section \<open>Example requests\<close>

text \<open>
  Concrete values for running the handlers. The configuration has a signing key and
  stand-ins for the libraries. The one for bcryptjs satisfies its contract (a password
  verifies against its own hash). The ones for Mongoose's casts follow Mongoose on null, on
  strings for a \<^verbatim>\<open>String\<close> path, on numbers for a \<^verbatim>\<open>Date\<close> path (a time value
  beyond 8640000000000000 milliseconds on either side of the epoch is no date), and on
  strings of 24 hexadecimal digits for an \<^verbatim>\<open>ObjectId\<close> path; they reject the other
  values, and \<open>other_update\<close> rejects every update. The examples give them only values on
  which they follow the libraries.
\<close>

definition hex_digit :: "char \<Rightarrow> nat option" where
  "hex_digit c =
     map_of
       [(CHR ''0'', 0), (CHR ''1'', 1), (CHR ''2'', 2), (CHR ''3'', 3), (CHR ''4'', 4),
        (CHR ''5'', 5), (CHR ''6'', 6), (CHR ''7'', 7), (CHR ''8'', 8), (CHR ''9'', 9),
        (CHR ''a'', 10), (CHR ''b'', 11), (CHR ''c'', 12), (CHR ''d'', 13), (CHR ''e'', 14),
        (CHR ''f'', 15), (CHR ''A'', 10), (CHR ''B'', 11), (CHR ''C'', 12), (CHR ''D'', 13),
        (CHR ''E'', 14), (CHR ''F'', 15)] c"

fun hex_number :: "nat \<Rightarrow> string \<Rightarrow> nat option" where
  "hex_number acc [] = Some acc"
| "hex_number acc (c # cs) =
     (case hex_digit c of
        None \<Rightarrow> None
      | Some n \<Rightarrow> hex_number (16 * acc + n) cs)"

definition demo_cast_String :: "json \<Rightarrow> string option option" where
  "demo_cast_String v =
     (case v of
        JNull \<Rightarrow> Some None
      | JStr x \<Rightarrow> Some (Some x)
      | _ \<Rightarrow> None)"

definition demo_cast_Date :: "json \<Rightarrow> date option option" where
  "demo_cast_Date v =
     (case v of
        JNull \<Rightarrow> Some None
      | JNum n \<Rightarrow>
          if - 8640000000000000 \<le> n \<and> n \<le> 8640000000000000 then Some (Some n) else None
      | _ \<Rightarrow> None)"

definition demo_cast_ObjectId :: "json \<Rightarrow> oid option option" where
  "demo_cast_ObjectId v =
     (case v of
        JNull \<Rightarrow> Some None
      | JStr x \<Rightarrow> if length x = 24 then map_option Some (hex_number 0 x) else None
      | _ \<Rightarrow> None)"

definition demo_cast_Strings :: "json \<Rightarrow> string option list option option" where
  "demo_cast_Strings v =
     (case v of
        JArr vs \<Rightarrow>
          if list_all (\<lambda>x. demo_cast_String x \<noteq> None) vs
          then Some (Some (map (\<lambda>x. case demo_cast_String x of Some y \<Rightarrow> y | None \<Rightarrow> None) vs))
          else None
      | _ \<Rightarrow> None)"

definition demo_config :: config where
  "demo_config =
     \<lparr>JWT_SECRET = Some ''secret'',
      bcrypt_hash = (\<lambda>p rounds sl. p @ ''$'' @ sl),
      bcrypt_compare = (\<lambda>p h. take (length p + 1) h = p @ ''$''),
      cast_String = demo_cast_String,
      cast_Date = demo_cast_Date,
      cast_ObjectId = demo_cast_ObjectId,
      cast_Strings = demo_cast_Strings,
      other_update = (\<lambda>body t. Inl MongoError)\<rparr>"

definition demo_request :: "date \<Rightarrow> oid \<Rightarrow> io" where
  "demo_request t i =
     \<lparr>now = t, salt = ''salt'', new_user_id = i, new_student_id = i,
      storage_ok = (\<lambda>k. True)\<rparr>"

definition failing_request :: "nat \<Rightarrow> date \<Rightarrow> oid \<Rightarrow> io" where
  "failing_request n t i = (demo_request t i)\<lparr>storage_ok := (\<lambda>k. k \<noteq> n)\<rparr>"

definition empty_store :: store where
  "empty_store = \<lparr>users = [], students = []\<rparr>"

definition demo_data :: "string \<rightharpoonup> string" where
  "demo_data =
     [''fullName'' \<mapsto> ''Ann'', ''department'' \<mapsto> ''IT'', ''project'' \<mapsto> ''Alpha'',
      ''skills'' \<mapsto> ''go, rust, c'', ''school'' \<mapsto> ''S'', ''course'' \<mapsto> ''C'',
      ''yearLevel'' \<mapsto> ''3'', ''contactNumber'' \<mapsto> ''1'', ''address'' \<mapsto> ''A'',
      ''startDate'' \<mapsto> ''2024-01-01'', ''endDate'' \<mapsto> ''2024-06-01'']"

definition demo_user :: user where
  "demo_user =
     \<lparr>user_id = 11, user_email = ''a@x.com'', user_password = ''p1$salt'',
      user_role = Student\<rparr>"

definition demo_student :: student where
  "demo_student =
     \<lparr>st_id = 11, st_userId = Some 11, st_email = Some ''a@x.com'',
      st_fullName = Some ''Ann'', st_department = Some ''IT'', st_project = Some ''Alpha'',
      st_skills = Some [Some ''go'', Some ''rust'', Some ''c''], st_school = Some ''S'',
      st_course = Some ''C'', st_yearLevel = Some ''3'', st_contactNumber = Some ''1'',
      st_address = Some ''A'', st_startDate = Some ''2024-01-01'',
      st_endDate = Some ''2024-06-01'', st_createdAt = Some 1000, st_updatedAt = Some 1000\<rparr>"

text \<open>The store after the scenario's registration into the empty store.\<close>

definition demo_store :: store where
  "demo_store = \<lparr>users = [demo_user], students = [demo_student]\<rparr>"

definition demo_token :: "int \<Rightarrow> token" where
  "demo_token sec =
     \<lparr>tok_userId = 11, tok_role = Student, tok_iat = sec, tok_exp = sec + 604800,
      tok_key = ''secret''\<rparr>"

definition demo_view :: account_view where
  "demo_view = \<lparr>view_id = 11, view_email = ''a@x.com'', view_role = Student\<rparr>"

text \<open>
  The store that a registration without \<^verbatim>\<open>fullName\<close> leaves, and the scenario's data
  with another department.
\<close>

definition orphan_store :: store where
  "orphan_store = \<lparr>users = [demo_user], students = []\<rparr>"

definition hr_data :: "string \<rightharpoonup> string" where
  "hr_data = demo_data(''department'' \<mapsto> ''HR'')"

definition hr_student :: student where
  "hr_student = demo_student\<lparr>st_department := Some ''HR'', st_project := None\<rparr>"

text \<open>
  An administrator's account beside the scenario's, for a login that is not a student's.
\<close>

definition admin_user :: user where
  "admin_user =
     \<lparr>user_id = 7, user_email = ''admin@ojt.com'', user_password = ''admin123$salt'',
      user_role = Admin\<rparr>"

definition admin_store :: store where
  "admin_store = \<lparr>users = [admin_user, demo_user], students = [demo_student]\<rparr>"

text \<open>
  Identifiers as the request path gives them: of the two accounts and profiles of the
  examples (11 and 12), of no record (99), and a string that is no identifier.
\<close>

definition first_id :: string where
  "first_id = ''00000000000000000000000b''"

definition second_id :: string where
  "second_id = ''00000000000000000000000c''"

definition unknown_id :: string where
  "unknown_id = ''000000000000000000000063''"

definition malformed_id :: string where
  "malformed_id = ''not-an-id''"

text \<open>
  A body that names \<^verbatim>\<open>fullName\<close> only, and the scenario's profile after updates at
  time 2000.
\<close>

definition rename_body :: "(string \<times> json) list" where
  "rename_body = [(''fullName'', JStr ''Ann B'')]"

definition renamed_student :: student where
  "renamed_student =
     demo_student\<lparr>st_fullName := Some ''Ann B'', st_updatedAt := Some 2000\<rparr>"

definition redated_student :: "date \<Rightarrow> student" where
  "redated_student t = demo_student\<lparr>st_createdAt := Some t, st_updatedAt := Some 2000\<rparr>"

text \<open>
  A second registration, at time 1500, into the store of the first; then the update, at
  time 1600, of the first account's profile with a body that names \<^verbatim>\<open>userId\<close>, which
  links that profile to the second account; then what the deletion of the second profile
  leaves.
\<close>

definition second_user :: user where
  "second_user =
     \<lparr>user_id = 12, user_email = ''b@x.com'', user_password = ''p2$salt'',
      user_role = Student\<rparr>"

definition second_student :: student where
  "second_student =
     demo_student\<lparr>st_id := 12, st_userId := Some 12, st_email := Some ''b@x.com'',
       st_createdAt := Some 1500, st_updatedAt := Some 1500\<rparr>"

definition two_store :: store where
  "two_store = \<lparr>users = [demo_user, second_user], students = [demo_student, second_student]\<rparr>"

definition relinked_student :: student where
  "relinked_student = demo_student\<lparr>st_userId := Some 12, st_updatedAt := Some 1600\<rparr>"

definition shared_store :: store where
  "shared_store =
     \<lparr>users = [demo_user, second_user], students = [relinked_student, second_student]\<rparr>"

definition left_store :: store where
  "left_store = \<lparr>users = [demo_user], students = [relinked_student]\<rparr>"

text \<open>
  Skills with white space of several kinds around the pieces, an empty piece and a space
  inside a piece.
\<close>

definition spaced_skills :: string where
  "spaced_skills = CHR 0xA0 # ''a ,, '' @ [CHR 0x09] @ ''b c'' @ [CHR 0x0A]"

definition spaced_data :: "string \<rightharpoonup> string" where
  "spaced_data = demo_data(''skills'' \<mapsto> spaced_skills)"

definition spaced_student :: student where
  "spaced_student = demo_student\<lparr>st_skills := Some [Some ''a'', Some ''b c'']\<rparr>"

text \<open>
  Bodies for the update: one that names \<^verbatim>\<open>createdAt\<close> with a time after the update's,
  one that names it with the epoch, one that names it with a number that is no date, one
  that names \<^verbatim>\<open>userId\<close>, and two that name a path under \<^verbatim>\<open>$set\<close> only; and the
  scenario's profile after the update at the time of its creation.
\<close>

definition late_body :: "(string \<times> json) list" where
  "late_body = [(''createdAt'', JNum 5000)]"

definition epoch_body :: "(string \<times> json) list" where
  "epoch_body = [(''createdAt'', JNum 0)]"

definition no_date_body :: "(string \<times> json) list" where
  "no_date_body = [(''createdAt'', JNum 8640000000000001)]"

definition relink_body :: "(string \<times> json) list" where
  "relink_body = [(''userId'', JStr second_id)]"

definition same_time_student :: student where
  "same_time_student = demo_student\<lparr>st_fullName := Some ''Ann B''\<rparr>"

definition set_name_body :: "(string \<times> json) list" where
  "set_name_body = [(''$set'', JObj [(''fullName'', JStr ''Ann B'')])]"

definition set_date_body :: "(string \<times> json) list" where
  "set_date_body = [(''$set'', JObj [(''createdAt'', JNum 0)])]"


section \<open>Auxiliary facts\<close>

lemmas handler_defs =
  register_def create_account_def create_profile_def student_literal_def
  Student_create_def Student_validate_def required_String_def User_create_def
  User_findOne_def js_bcrypt_hash_def js_bcrypt_compare_def jwt_sign_def public_view_def
  login_def login_catch_def register_catch_def Let_def

lemmas demo_defs =
  demo_config_def demo_request_def failing_request_def empty_store_def demo_data_def
  demo_store_def demo_user_def demo_student_def demo_token_def demo_view_def

lemmas more_defs = orphan_store_def hr_data_def hr_student_def

lemmas profile_defs =
  get_student_def update_student_def delete_student_def cast_update_def set_document_def
  plain_members_def declared_paths_def obj_get_def is_object_def update_castable_def
  apply_set_def path_change_def new_value_def
  Student_findOne_def Student_findById_def User_findByIdAndDelete_def
  Student_findByIdAndDelete_def

lemmas cast_defs =
  demo_cast_String_def demo_cast_Date_def demo_cast_ObjectId_def demo_cast_Strings_def
  hex_digit_def first_id_def second_id_def unknown_id_def malformed_id_def

lemmas patch_defs = rename_body_def renamed_student_def redated_student_def
  set_name_body_def set_date_body_def

lemmas two_defs = second_user_def second_student_def two_store_def relinked_student_def
  shared_store_def left_store_def

lemmas body_defs = late_body_def epoch_body_def no_date_body_def relink_body_def
  same_time_student_def

lemma find_append_new:
  "find P xs = None \<Longrightarrow> find P (xs @ [x]) = (if P x then Some x else None)"
  by (induction xs) (auto split: if_splits)

lemma find_Some_mem: "x \<in> set xs \<Longrightarrow> P x \<Longrightarrow> find P xs \<noteq> None"
  by (induction xs) auto

lemma create_account_Inr:
  "create_account cfg rq s email password = Inr (u, s1) \<Longrightarrow>
     \<exists>p. password = Some p \<and> User_findOne s email = None \<and>
       u = \<lparr>user_id = new_user_id rq, user_email = email,
            user_password = bcrypt_hash cfg p 10 (salt rq), user_role = Student\<rparr> \<and>
       s1 = s\<lparr>users := users s @ [u]\<rparr>"
  by (auto simp: create_account_def js_bcrypt_hash_def User_create_def Let_def
      split: if_splits option.splits sum.splits)

lemma create_profile_Inr:
  "create_profile rq s1 u email sd = Inr (d, s2) \<Longrightarrow>
     users s2 = users s1 \<and> students s2 = students s1 @ [d]"
  by (auto simp: create_profile_def Student_create_def Let_def
      split: if_splits sum.splits)

lemma register_users:
  assumes "register cfg rq s email password sd = (r, s')"
  shows "users s' = users s \<or>
     (\<exists>u s1. create_account cfg rq s email password = Inr (u, s1) \<and> users s' = users s @ [u])"
  using assms
  by (auto simp: register_def split: sum.splits prod.splits
      dest!: create_account_Inr create_profile_Inr)

lemma parse_demo: "parse_skills ''go, rust, c'' = [''go'', ''rust'', ''c'']"
  by (simp add: parse_skills_def js_trim_def is_white_space_def)

lemma register_demo:
  "register demo_config (demo_request 1000 11) empty_store ''a@x.com'' (Some ''p1'') demo_data =
     (Response 200 (RegisterOk (demo_token 1) demo_view), demo_store)"
  by (simp add: handler_defs demo_defs parse_demo)

lemma demo_config_sound:
  "bcrypt_compare demo_config p (bcrypt_hash demo_config p rounds sl)"
  by (simp add: demo_config_def)

lemma missing_required_not_valid:
  assumes "f \<in> set required_profile_fields" and "sd f = None"
    and "student_literal uid email sd = Inr inp"
  shows "\<not> Student_validate inp"
  using assms
  by (auto simp: required_profile_fields_def student_literal_def Student_validate_def
      required_String_def split: option.splits)

lemma create_profile_missing:
  assumes "f \<in> set required_profile_fields" and "sd f = None"
  shows "\<exists>e. create_profile rq s1 u email sd = Inl e"
proof (cases "student_literal (user_id u) email sd")
  case (Inl e)
  then show ?thesis by (simp add: create_profile_def)
next
  case (Inr inp)
  with missing_required_not_valid [OF assms Inr] show ?thesis
    by (simp add: create_profile_def Student_create_def)
qed

lemma register_200:
  assumes "register cfg rq s email password sd = (Response 200 pl, s')"
  shows "\<exists>u s1 d t. create_account cfg rq s email password = Inr (u, s1) \<and>
           create_profile rq s1 u email sd = Inr (d, s') \<and>
           jwt_sign cfg rq (user_id u) (user_role u) = Inr t \<and>
           pl = RegisterOk t (public_view u)"
  using assms
  by (auto simp: register_def create_account_def register_catch_def
      split: sum.splits prod.splits if_splits option.splits)

lemma student_literal_cong:
  assumes "\<forall>k \<in> set read_fields. sd' k = sd k"
  shows "student_literal uid email sd' = student_literal uid email sd"
  using assms by (auto simp: student_literal_def read_fields_def split: option.splits)

lemma create_profile_cong:
  assumes "\<forall>k \<in> set read_fields. sd' k = sd k"
  shows "create_profile rq s1 u email sd' = create_profile rq s1 u email sd"
  by (simp add: create_profile_def student_literal_cong [OF assms])

lemma create_account_demo:
  "create_account demo_config (demo_request 1000 11) empty_store ''a@x.com'' (Some ''p1'') =
     Inr (demo_user, orphan_store)"
  by (simp add: handler_defs demo_defs more_defs)

lemma create_profile_no_name:
  "create_profile (demo_request 1000 11) orphan_store demo_user ''a@x.com''
     (demo_data(''fullName'' := None)) = Inl ValidationError"
  by (simp add: handler_defs demo_defs more_defs parse_demo)

lemma register_hr:
  "register demo_config (demo_request 1000 11) empty_store ''a@x.com'' (Some ''p1'') hr_data =
     (Response 200 (RegisterOk (demo_token 1) demo_view),
      \<lparr>users = [demo_user], students = [hr_student]\<rparr>)"
  by (simp add: handler_defs demo_defs more_defs parse_demo)

lemma white_space_same: "is_white_space c = spec_white_space c"
  by (simp add: is_white_space_def spec_white_space_def white_space_chars_def)

lemma takeWhile_rev_dropWhile:
  assumes "dropWhile P xs \<noteq> []"
  shows "takeWhile P (rev (dropWhile P xs)) = takeWhile P (rev xs)"
proof -
  have "\<not> P (hd (dropWhile P xs))"
    using assms by (rule hd_dropWhile)
  then have ex: "\<exists>x \<in> set (rev (dropWhile P xs)). \<not> P x"
    using assms hd_in_set [of "dropWhile P xs"] by (intro bexI [of _ "hd (dropWhile P xs)"]) simp_all
  have "rev xs = rev (dropWhile P xs) @ rev (takeWhile P xs)"
    by (metis rev_append takeWhile_dropWhile_id)
  then have "takeWhile P (rev xs) = takeWhile P (rev (dropWhile P xs) @ rev (takeWhile P xs))"
    by simp
  also have "\<dots> = takeWhile P (rev (dropWhile P xs))"
    using ex by (auto simp: takeWhile_append1)
  finally show ?thesis by simp
qed

lemma rev_dropWhile_rev:
  "rev (dropWhile P (rev ys)) = take (length ys - length (takeWhile P (rev ys))) ys"
  by (simp add: dropWhile_eq_drop rev_drop)

lemma js_trim_spec: "js_trim p = spec_trim p"
proof (cases "dropWhile spec_white_space p = []")
  case True
  then have all: "takeWhile spec_white_space p = p"
    by (metis append_Nil2 takeWhile_dropWhile_id)
  have "js_trim p = []"
    unfolding js_trim_def white_space_same [abs_def] True by simp
  moreover have "spec_trim p = []"
    unfolding spec_trim_def Let_def all by simp
  ultimately show ?thesis by simp
next
  case False
  let ?q = "dropWhile spec_white_space p"
  let ?n = "length (takeWhile spec_white_space p)"
  have q: "?q = drop ?n p"
    by (simp add: dropWhile_eq_drop)
  have "js_trim p = rev (dropWhile spec_white_space (rev ?q))"
    by (simp add: js_trim_def white_space_same [abs_def])
  also have "\<dots> = take (length ?q - length (takeWhile spec_white_space (rev ?q))) ?q"
    by (rule rev_dropWhile_rev)
  also have "\<dots> = take (length ?q - length (takeWhile spec_white_space (rev p))) ?q"
    using takeWhile_rev_dropWhile [OF False] by simp
  also have "\<dots> = spec_trim p"
    by (simp add: spec_trim_def Let_def q)
  finally show ?thesis .
qed

lemma js_split_not_Nil: "js_split c s \<noteq> []"
  by (induction s) (auto split: list.splits)

lemma spec_skills_from_split:
  "spec_skills_from acc s =
     (case js_split CHR '','' s of
        [] \<Rightarrow> []
      | p # ps \<Rightarrow> keep_piece (rev acc @ p) @ filter (\<lambda>x. x \<noteq> []) (map spec_trim ps))"
proof (induction s arbitrary: acc)
  case Nil
  then show ?case by simp
next
  case (Cons c cs)
  show ?case
  proof (cases "c = CHR '',''")
    case True
    then show ?thesis
      using Cons.IH [of "[]"] js_split_not_Nil [of "CHR '',''" cs]
      by (auto simp: keep_piece_def split: list.splits)
  next
    case False
    then show ?thesis
      using Cons.IH [of "c # acc"] js_split_not_Nil [of "CHR '',''" cs]
      by (auto split: list.splits)
  qed
qed

lemma parse_skills_spec: "parse_skills s = spec_skills s"
  using js_split_not_Nil [of "CHR '',''" s]
  by (auto simp: parse_skills_def spec_skills_def spec_skills_from_split keep_piece_def
      js_trim_spec [abs_def] split: list.splits)

lemma js_split_no_separator: "p \<in> set (js_split c s) \<Longrightarrow> c \<notin> set p"
  by (induction s arbitrary: p) (auto split: if_splits list.splits)

lemma set_js_trim: "set (js_trim p) \<subseteq> set p"
  by (auto simp: js_trim_def dest!: set_dropWhileD)

lemma js_trim_ends:
  assumes "js_trim p \<noteq> []"
  shows "\<not> is_white_space (hd (js_trim p)) \<and> \<not> is_white_space (last (js_trim p))"
proof -
  let ?q = "dropWhile is_white_space p"
  let ?r = "dropWhile is_white_space (rev ?q)"
  have r: "?r \<noteq> []" and t: "js_trim p = rev ?r"
    using assms by (simp_all add: js_trim_def)
  have last: "\<not> is_white_space (last (js_trim p))"
    using r hd_dropWhile [OF r] by (simp add: t last_rev)
  have q: "?q \<noteq> []"
  proof
    assume e: "?q = []"
    have "?r = []" unfolding e by simp
    with r show False by simp
  qed
  have "rev ?q = takeWhile is_white_space (rev ?q) @ ?r"
    by simp
  then have "?q = rev ?r @ rev (takeWhile is_white_space (rev ?q))"
    by (metis rev_append rev_rev_ident)
  then have "hd ?q = hd (rev ?r)"
    using r by (metis hd_append2 rev_is_Nil_conv)
  then have "\<not> is_white_space (hd (js_trim p))"
    using hd_dropWhile [OF q] by (simp add: t)
  with last show ?thesis by simp
qed

lemma parse_skills_pieces:
  assumes "x \<in> set (parse_skills s)"
  shows "x \<noteq> [] \<and> \<not> spec_white_space (hd x) \<and> \<not> spec_white_space (last x) \<and>
         CHR '','' \<notin> set x"
proof -
  from assms obtain p where p: "p \<in> set (js_split CHR '','' s)" and x: "x = js_trim p"
    and ne: "x \<noteq> []"
    by (auto simp: parse_skills_def)
  have "CHR '','' \<notin> set x"
    using js_split_no_separator [OF p] set_js_trim [of p] x by auto
  with ne js_trim_ends [of p] x show ?thesis
    by (simp add: white_space_same)
qed

lemma parse_spaced: "parse_skills spaced_skills = [''a'', ''b c'']"
  by (simp add: parse_skills_def js_trim_def is_white_space_def spaced_skills_def)

lemma register_spaced:
  "register demo_config (demo_request 1000 11) empty_store ''a@x.com'' (Some ''p1'') spaced_data =
     (Response 200 (RegisterOk (demo_token 1) demo_view),
      \<lparr>users = [demo_user], students = [spaced_student]\<rparr>)"
  by (simp add: handler_defs demo_defs spaced_data_def spaced_student_def parse_spaced)

lemma find_append_found: "find P xs = Some x \<Longrightarrow> find P (xs @ ys) = Some x"
  by (induction xs) (auto split: if_splits)

lemma cast_first_id: "cast_ObjectId demo_config (JStr first_id) = Some (Some 11)"
  by (simp add: demo_config_def cast_defs)

lemma cast_second_id: "cast_ObjectId demo_config (JStr second_id) = Some (Some 12)"
  by (simp add: demo_config_def cast_defs)

lemma cast_unknown_id: "cast_ObjectId demo_config (JStr unknown_id) = Some (Some 99)"
  by (simp add: demo_config_def cast_defs)

lemma cast_malformed_id: "cast_ObjectId demo_config (JStr malformed_id) = None"
  by (simp add: demo_config_def cast_defs)

lemma update_rename:
  "update_student demo_config (demo_request 2000 12) demo_store first_id rename_body =
     (Response 200 (StudentOk renamed_student),
      \<lparr>users = [demo_user], students = [renamed_student]\<rparr>)"
  by (simp add: update_student_def cast_first_id)
    (simp add: profile_defs demo_defs patch_defs demo_cast_String_def)


lemma find_SomeD: "find P xs = Some x \<Longrightarrow> P x \<and> x \<in> set xs"
  by (induction xs) (auto split: if_splits)

lemma update_first_nth:
  "find P xs = Some d \<Longrightarrow>
     \<exists>i < length xs. xs ! i = d \<and> update_first P f xs = xs[i := f d]"
proof (induction xs)
  case Nil
  then show ?case by simp
next
  case (Cons x xs)
  show ?case
  proof (cases "P x")
    case True
    with Cons.prems have "x = d" by simp
    with True show ?thesis by (intro exI [of _ 0]) simp
  next
    case False
    with Cons obtain i where "i < length xs" "xs ! i = d"
      "update_first P f xs = xs[i := f d]" by auto
    with False show ?thesis by (intro exI [of _ "Suc i"]) simp
  qed
qed

lemma update_first_same:
  "find P xs = Some d \<Longrightarrow> g d' = g d \<Longrightarrow> map g (update_first P (\<lambda>x. d') xs) = map g xs"
  by (induction xs) (auto split: if_splits)

lemma set_remove_first:
  "distinct (map f xs) \<Longrightarrow>
     set (remove_first (\<lambda>x. Some (f x) = k) xs) = {x \<in> set xs. Some (f x) \<noteq> k}"
  by (induction xs) (auto simp: rev_image_eqI)

lemma set_remove_first_id:
  "distinct (map f xs) \<Longrightarrow>
     set (remove_first (\<lambda>x. f x = k) xs) = {x \<in> set xs. f x \<noteq> k}"
  by (induction xs) (auto simp: rev_image_eqI)

lemma find_remove_first_id:
  "distinct (map f xs) \<Longrightarrow>
     find (\<lambda>x. f x = k) (remove_first (\<lambda>x. f x = k) xs) = None"
  by (induction xs) (auto simp: find_None_iff rev_image_eqI)

lemma plain_no_set: "plain_members body \<Longrightarrow> (''$set'', v) \<notin> set body"
  by (auto simp: plain_members_def declared_paths_def list_all_iff)

lemma set_document_plain:
  assumes "plain_members body"
  shows "set_document body = Some body"
proof -
  have keep: "filter (\<lambda>(k, v). k \<noteq> ''$set'') body = body"
    using plain_no_set [OF assms] by (auto simp: filter_id_conv)
  have "''$set'' \<notin> fst ` set (rev body)"
    using plain_no_set [OF assms] by force
  then have "obj_get body ''$set'' = None"
    unfolding obj_get_def by (simp only: map_of_eq_None_iff not_False_eq_True)
  then show ?thesis
    using assms by (simp add: set_document_def keep)
qed

lemma cast_update_plain:
  assumes "plain_members body"
  shows "cast_update cfg body t =
     (if update_castable cfg body then Inr (\<lambda>d. Inr (apply_set cfg body t d))
      else Inl CastError)"
  by (simp add: cast_update_def set_document_plain [OF assms])

lemma apply_set_assigned:
  assumes "path_change c doc k \<noteq> None"
  shows "assigned c doc k old (new_value (path_change c doc k) old)"
  using assms
  by (auto simp: assigned_def path_change_def new_value_def split: option.splits)

lemma update_late:
  "update_student demo_config (demo_request 2000 12) demo_store first_id late_body =
     (Response 200 (StudentOk (redated_student 5000)),
      \<lparr>users = [demo_user], students = [redated_student 5000]\<rparr>)"
  by (simp add: update_student_def cast_first_id)
    (simp add: profile_defs demo_defs patch_defs body_defs demo_cast_Date_def)

lemma update_same_time:
  "update_student demo_config (demo_request 1000 12) demo_store first_id rename_body =
     (Response 200 (StudentOk same_time_student),
      \<lparr>users = [demo_user], students = [same_time_student]\<rparr>)"
  by (simp add: update_student_def cast_first_id)
    (simp add: profile_defs demo_defs patch_defs body_defs demo_cast_String_def)

lemma update_set_name:
  "update_student demo_config (demo_request 2000 12) demo_store first_id set_name_body =
     (Response 200 (StudentOk renamed_student),
      \<lparr>users = [demo_user], students = [renamed_student]\<rparr>)"
  by (simp add: update_student_def cast_first_id)
    (simp add: profile_defs demo_defs patch_defs body_defs demo_cast_String_def)

lemma update_no_date:
  "update_student demo_config (demo_request 2000 12) demo_store first_id no_date_body =
     (Response 500 (Failure ''Update failed''), demo_store)"
  by (simp add: update_student_def cast_first_id)
    (simp add: profile_defs demo_defs patch_defs body_defs demo_cast_Date_def)

lemma update_malformed:
  "update_student demo_config (demo_request 2000 12) demo_store malformed_id rename_body =
     (Response 500 (Failure ''Update failed''), demo_store)"
  by (simp add: update_student_def cast_malformed_id)

lemma update_epoch:
  "update_student demo_config (demo_request 2000 12) demo_store first_id epoch_body =
     (Response 200 (StudentOk (redated_student 0)),
      \<lparr>users = [demo_user], students = [redated_student 0]\<rparr>)"
  by (simp add: update_student_def cast_first_id)
    (simp add: profile_defs demo_defs patch_defs body_defs demo_cast_Date_def)

lemma update_set_date:
  "update_student demo_config (demo_request 2000 12) demo_store first_id set_date_body =
     (Response 200 (StudentOk (redated_student 0)),
      \<lparr>users = [demo_user], students = [redated_student 0]\<rparr>)"
  by (simp add: update_student_def cast_first_id)
    (simp add: profile_defs demo_defs patch_defs body_defs demo_cast_Date_def)

lemma register_second:
  "register demo_config (demo_request 1500 12) demo_store ''b@x.com'' (Some ''p2'') demo_data =
     (Response 200 (RegisterOk (demo_token 1\<lparr>tok_userId := 12\<rparr>)
        \<lparr>view_id = 12, view_email = ''b@x.com'', view_role = Student\<rparr>), two_store)"
  by (simp add: handler_defs demo_defs two_defs parse_demo)

lemma relink:
  "update_student demo_config (demo_request 1600 13) two_store first_id relink_body =
     (Response 200 (StudentOk relinked_student), shared_store)"
  by (simp add: update_student_def cast_first_id)
    (simp add: profile_defs demo_defs two_defs body_defs demo_cast_ObjectId_def
      hex_digit_def second_id_def)

lemma delete_shared:
  "delete_student demo_config (demo_request 1700 14) shared_store second_id =
     (Response 200 Success, left_store)"
  by (simp add: delete_student_def cast_second_id)
    (simp add: profile_defs demo_defs two_defs)

lemma get_left:
  "get_student demo_config (demo_request 1800 15) left_store second_id =
     (Response 200 (StudentOk relinked_student), left_store)"
  by (simp add: get_student_def cast_second_id)
    (simp add: profile_defs demo_defs two_defs)

lemma delete_malformed:
  "delete_student demo_config (demo_request 1700 14) demo_store malformed_id =
     (Response 500 (Failure ''Delete failed''), demo_store)"
  by (simp add: delete_student_def cast_malformed_id)

section \<open>Login after registration\<close>

text \<open>
  C1. With the signing key configured and bcryptjs verifying a password against its own
  hash, two things hold. First, in every store, a login with an email and a password that
  verifies against the hash of the account found under that email succeeds: status 200, a
  token that carries that account's identifier and role, issued at the current second for
  seven days, and the account's view (id, email, role). Second, an account \<open>u\<close> created by
  \<open>register\<close> has the new identifier, the given email and role student, the given
  password verifies against its hash, and it is the account found under its email in the
  store that register leaves and in every store that later registrations make of a store
  where it is found; so in every store where it is found, a login with the registration's
  email and password succeeds with a token and a view that carry its identifier and role
  student. When the registration itself answered with a token, that token and the view
  beside it carry the same identifier and role.
\<close>

theorem register_then_login:
  assumes sound: "\<And>p rounds sl. bcrypt_compare cfg p (bcrypt_hash cfg p rounds sl)"
    and key: "JWT_SECRET cfg = Some k" "k \<noteq> []"
  shows "(storage_ok rqa 0 \<and> User_findOne sa ea = Some ua \<and>
          bcrypt_compare cfg pa (user_password ua) \<longrightarrow>
            login cfg rqa sa ea (Some pa) =
              (Response 200
                 (LoginOk (user_role ua)
                    \<lparr>tok_userId = user_id ua, tok_role = user_role ua,
                     tok_iat = now rqa div 1000,
                     tok_exp = now rqa div 1000 + 7 * 24 * 60 * 60, tok_key = k\<rparr>
                    \<lparr>view_id = user_id ua, view_email = user_email ua,
                     view_role = user_role ua\<rparr>), sa)) \<and>
         (register cfg rq s email password studentData = (r, s') \<and>
          users s' = users s @ [u] \<longrightarrow>
            user_id u = new_user_id rq \<and> user_email u = email \<and> user_role u = Student \<and>
            (\<exists>p. password = Some p \<and> bcrypt_compare cfg p (user_password u)) \<and>
            User_findOne s' email = Some u \<and>
            (\<forall>s2 cfg2 rq2 e2 pw2 sd2.
               User_findOne s2 email = Some u \<longrightarrow>
               User_findOne (snd (register cfg2 rq2 s2 e2 pw2 sd2)) email = Some u) \<and>
            (\<forall>s2 rq2.
               storage_ok rq2 0 \<and> User_findOne s2 email = Some u \<longrightarrow>
               login cfg rq2 s2 email password =
                 (Response 200
                    (LoginOk Student
                       \<lparr>tok_userId = new_user_id rq, tok_role = Student,
                        tok_iat = now rq2 div 1000,
                        tok_exp = now rq2 div 1000 + 7 * 24 * 60 * 60, tok_key = k\<rparr>
                       \<lparr>view_id = new_user_id rq, view_email = email,
                        view_role = Student\<rparr>), s2)) \<and>
            (\<forall>t v. r = Response 200 (RegisterOk t v) \<longrightarrow>
               tok_userId t = new_user_id rq \<and> tok_role t = Student \<and>
               v = \<lparr>view_id = new_user_id rq, view_email = email, view_role = Student\<rparr>))"
proof (intro conjI impI; (elim conjE)?)
  assume "storage_ok rqa 0" "User_findOne sa ea = Some ua"
    "bcrypt_compare cfg pa (user_password ua)"
  then show "login cfg rqa sa ea (Some pa) =
              (Response 200
                 (LoginOk (user_role ua)
                    \<lparr>tok_userId = user_id ua, tok_role = user_role ua,
                     tok_iat = now rqa div 1000,
                     tok_exp = now rqa div 1000 + 7 * 24 * 60 * 60, tok_key = k\<rparr>
                    \<lparr>view_id = user_id ua, view_email = user_email ua,
                     view_role = user_role ua\<rparr>), sa)"
    using key by (simp add: login_def js_bcrypt_compare_def jwt_sign_def public_view_def)
next
  assume reg: "register cfg rq s email password studentData = (r, s')"
    and created: "users s' = users s @ [u]"
  from register_users [OF reg] created
  obtain s1 where acc: "create_account cfg rq s email password = Inr (u, s1)"
    by auto
  from create_account_Inr [OF acc] obtain p where
    p: "password = Some p" and free: "User_findOne s email = None" and
    u: "u = \<lparr>user_id = new_user_id rq, user_email = email,
            user_password = bcrypt_hash cfg p 10 (salt rq), user_role = Student\<rparr>"
    by blast
  show "user_id u = new_user_id rq" "user_email u = email" "user_role u = Student"
    using u by simp_all
  have match: "bcrypt_compare cfg p (user_password u)"
    using u sound by simp
  with p show "\<exists>p. password = Some p \<and> bcrypt_compare cfg p (user_password u)"
    by blast
  show "User_findOne s' email = Some u"
    using free created u by (simp add: User_findOne_def find_append_new)
  show "\<forall>s2 cfg2 rq2 e2 pw2 sd2.
               User_findOne s2 email = Some u \<longrightarrow>
               User_findOne (snd (register cfg2 rq2 s2 e2 pw2 sd2)) email = Some u"
  proof (intro allI impI)
    fix s2 cfg2 rq2 e2 pw2 sd2
    assume f: "User_findOne s2 email = Some u"
    obtain r2 s3 where run: "register cfg2 rq2 s2 e2 pw2 sd2 = (r2, s3)"
      by (cases "register cfg2 rq2 s2 e2 pw2 sd2")
    from register_users [OF run] have "\<exists>us. users s3 = users s2 @ us" by auto
    then show "User_findOne (snd (register cfg2 rq2 s2 e2 pw2 sd2)) email = Some u"
      using f by (auto simp: run User_findOne_def find_append_found)
  qed
  show "\<forall>s2 rq2.
               storage_ok rq2 0 \<and> User_findOne s2 email = Some u \<longrightarrow>
               login cfg rq2 s2 email password =
                 (Response 200
                    (LoginOk Student
                       \<lparr>tok_userId = new_user_id rq, tok_role = Student,
                        tok_iat = now rq2 div 1000,
                        tok_exp = now rq2 div 1000 + 7 * 24 * 60 * 60, tok_key = k\<rparr>
                       \<lparr>view_id = new_user_id rq, view_email = email,
                        view_role = Student\<rparr>), s2)"
    using match p key u
    by (simp add: login_def js_bcrypt_compare_def jwt_sign_def public_view_def)
  show "\<forall>t v. r = Response 200 (RegisterOk t v) \<longrightarrow>
               tok_userId t = new_user_id rq \<and> tok_role t = Student \<and>
               v = \<lparr>view_id = new_user_id rq, view_email = email, view_role = Student\<rparr>"
    using reg acc u
    by (auto simp: register_def jwt_sign_def public_view_def register_catch_def
        split: sum.splits prod.splits option.splits if_splits)
qed


theorem register_then_login_witness:
  "JWT_SECRET demo_config = Some ''secret'' \<and>
   storage_ok (demo_request 2000 12) 0 \<and>
   User_findOne admin_store ''admin@ojt.com'' = Some admin_user \<and>
   bcrypt_compare demo_config ''admin123'' (user_password admin_user) \<and>
   login demo_config (demo_request 2000 12) admin_store ''admin@ojt.com'' (Some ''admin123'') =
     (Response 200
        (LoginOk Admin
           \<lparr>tok_userId = 7, tok_role = Admin, tok_iat = 2, tok_exp = 604802,
            tok_key = ''secret''\<rparr>
           \<lparr>view_id = 7, view_email = ''admin@ojt.com'', view_role = Admin\<rparr>), admin_store) \<and>
   register demo_config (demo_request 1000 11) empty_store ''a@x.com'' (Some ''p1'') demo_data =
     (Response 200 (RegisterOk (demo_token 1) demo_view), demo_store) \<and>
   users demo_store = users empty_store @ [demo_user] \<and>
   User_findOne two_store ''a@x.com'' = Some demo_user \<and>
   login demo_config (demo_request 2000 12) two_store ''a@x.com'' (Some ''p1'') =
     (Response 200 (LoginOk Student (demo_token 2) demo_view), two_store) \<and>
   login demo_config (demo_request 2000 12) admin_store ''a@x.com'' (Some ''p1'') =
     (Response 200 (LoginOk Student (demo_token 2) demo_view), admin_store)"
proof -
  have key: "JWT_SECRET demo_config = Some ''secret''" "''secret'' \<noteq> []"
    by (simp_all add: demo_defs)
  have up: "storage_ok (demo_request 2000 12) 0"
    by (simp add: demo_defs)
  have admin: "User_findOne admin_store ''admin@ojt.com'' = Some admin_user"
    "bcrypt_compare demo_config ''admin123'' (user_password admin_user)"
    by (simp_all add: User_findOne_def admin_store_def admin_user_def demo_defs)
  have created: "users demo_store = users empty_store @ [demo_user]"
    by (simp add: demo_defs)
  have found: "User_findOne two_store ''a@x.com'' = Some demo_user"
    "User_findOne admin_store ''a@x.com'' = Some demo_user"
    by (simp_all add: User_findOne_def two_store_def admin_store_def admin_user_def demo_defs)
  note inst = register_then_login [OF demo_config_sound key,
      where rqa = "demo_request 2000 12" and sa = admin_store and
        ea = "''admin@ojt.com''" and pa = "''admin123''" and ua = admin_user and
        rq = "demo_request 1000 11" and s = empty_store and email = "''a@x.com''" and
        password = "Some ''p1''" and studentData = demo_data and
        r = "Response 200 (RegisterOk (demo_token 1) demo_view)" and s' = demo_store and
        u = demo_user]
  from inst up admin have a: "login demo_config (demo_request 2000 12) admin_store
      ''admin@ojt.com'' (Some ''admin123'') =
     (Response 200
        (LoginOk Admin
           \<lparr>tok_userId = 7, tok_role = Admin, tok_iat = 2, tok_exp = 604802,
            tok_key = ''secret''\<rparr>
           \<lparr>view_id = 7, view_email = ''admin@ojt.com'', view_role = Admin\<rparr>), admin_store)"
    by (simp add: admin_user_def demo_request_def)
  from inst register_demo created have b: "\<forall>s2 rq2.
      storage_ok rq2 0 \<and> User_findOne s2 ''a@x.com'' = Some demo_user \<longrightarrow>
      login demo_config rq2 s2 ''a@x.com'' (Some ''p1'') =
        (Response 200
           (LoginOk Student
              \<lparr>tok_userId = new_user_id (demo_request 1000 11), tok_role = Student,
               tok_iat = now rq2 div 1000, tok_exp = now rq2 div 1000 + 7 * 24 * 60 * 60,
               tok_key = ''secret''\<rparr>
              \<lparr>view_id = new_user_id (demo_request 1000 11), view_email = ''a@x.com'',
               view_role = Student\<rparr>), s2)"
    by blast
  from b up found have c:
    "login demo_config (demo_request 2000 12) two_store ''a@x.com'' (Some ''p1'') =
       (Response 200 (LoginOk Student (demo_token 2) demo_view), two_store)"
    "login demo_config (demo_request 2000 12) admin_store ''a@x.com'' (Some ''p1'') =
       (Response 200 (LoginOk Student (demo_token 2) demo_view), admin_store)"
    by (simp_all add: demo_request_def demo_token_def demo_view_def)
  show ?thesis
    using key(1) up admin a register_demo created found(1) c by simp
qed


section \<open>Failed logins\<close>

text \<open>
  C2. The handler answers an unknown email and a password that does not verify with the
  same 401 \<^verbatim>\<open>Invalid credentials\<close>, so that the caller cannot tell the two apart. It
  misses the request that carries no password: for an email that has an account, bcryptjs
  rejects the undefined password and the handler answers 500 \<^verbatim>\<open>Login failed\<close>; for an
  email that has no account, the same request is answered 401. The two answers tell the
  caller whether the email has an account.
\<close>

theorem login_without_password:
  "User_findOne demo_store ''a@x.com'' = Some demo_user \<and>
   User_findOne demo_store ''b@x.com'' = None \<and>
   login demo_config (demo_request 2000 12) demo_store ''a@x.com'' None =
     (Response 500 (Failure ''Login failed''), demo_store) \<and>
   login demo_config (demo_request 2000 12) demo_store ''b@x.com'' None =
     (Response 401 (Failure ''Invalid credentials''), demo_store)"
  by (simp add: handler_defs demo_defs)

text \<open>
  For a password that is a string the two failures are one: response and store are those
  of a login with an email that has no account.
\<close>

lemma login_wrong_password:
  assumes "User_findOne s email = Some u"
    and "\<not> bcrypt_compare cfg p (user_password u)"
    and "User_findOne s email' = None"
    and "storage_ok rq 0" and "storage_ok rq' 0"
  shows "login cfg rq s email (Some p) = (Response 401 (Failure ''Invalid credentials''), s) \<and>
         login cfg rq' s email' password' = login cfg rq s email (Some p)"
  using assms by (simp add: login_def js_bcrypt_compare_def)

section \<open>Registering a taken email\<close>

text \<open>
  C3. In every store that holds an account with the given email, \<open>register\<close> with that
  email answers 400 \<^verbatim>\<open>Email already registered\<close> and returns the store as it was, for
  every password and every profile data: no second account is created. (Storage answers
  the lookup; otherwise the handler cannot know that the email is taken.)
\<close>

theorem register_email_taken:
  assumes "u \<in> set (users s)" and "user_email u = email" and "storage_ok rq 0"
  shows "register cfg rq s email password studentData =
           (Response 400 (Failure ''Email already registered''), s)"
proof -
  have "User_findOne s email \<noteq> None"
    unfolding User_findOne_def using assms(1,2) by (intro find_Some_mem) auto
  then show ?thesis
    using assms(3) by (auto simp: register_def create_account_def)
qed

theorem register_email_taken_witness:
  "demo_user \<in> set (users demo_store) \<and> user_email demo_user = ''a@x.com'' \<and>
   storage_ok (demo_request 2000 12) 0 \<and>
   register demo_config (demo_request 2000 12) demo_store ''a@x.com'' (Some ''other'') demo_data =
     (Response 400 (Failure ''Email already registered''), demo_store)"
proof -
  have h: "demo_user \<in> set (users demo_store)" "user_email demo_user = ''a@x.com''"
    "storage_ok (demo_request 2000 12) 0"
    by (simp_all add: demo_defs)
  show ?thesis
    using h register_email_taken [OF h, of demo_config "Some ''other''" demo_data] by simp
qed

section \<open>Registration with a missing profile field\<close>

text \<open>
  C4, as written, fails: the handler has one \<^verbatim>\<open>catch\<close>, which answers every exception
  with status 500 and \<^verbatim>\<open>Registration failed\<close>. A registration without
  \<^verbatim>\<open>fullName\<close> (Mongoose's validation error) and a registration that finds storage down
  get the same response.
\<close>

theorem validation_failure_generic_counterexample:
  "''fullName'' \<in> set required_profile_fields \<and>
   (demo_data(''fullName'' := None)) ''fullName'' = None \<and>
   register demo_config (demo_request 1000 11) empty_store ''a@x.com'' (Some ''p1'')
       (demo_data(''fullName'' := None)) =
     (Response 500 (Failure ''Registration failed''), orphan_store) \<and>
   register demo_config (failing_request 0 1000 11) empty_store ''a@x.com'' (Some ''p1'')
       demo_data =
     (Response 500 (Failure ''Registration failed''), empty_store)"
proof -
  have "register demo_config (demo_request 1000 11) empty_store ''a@x.com'' (Some ''p1'')
       (demo_data(''fullName'' := None)) =
     (Response 500 (Failure ''Registration failed''), orphan_store)"
    by (simp add: register_def create_account_demo create_profile_no_name register_catch_def)
  moreover have "register demo_config (failing_request 0 1000 11) empty_store ''a@x.com''
       (Some ''p1'') demo_data =
     (Response 500 (Failure ''Registration failed''), empty_store)"
    by (simp add: register_def create_account_def register_catch_def failing_request_def
        demo_request_def)
  ultimately show ?thesis
    by (simp add: required_profile_fields_def)
qed

text \<open>
  C4, amended. For every register input in which a required profile field is missing,
  register fails: with 400 \<^verbatim>\<open>Email already registered\<close> when the lookup finds the
  email taken, and otherwise with status 500 and \<^verbatim>\<open>Registration failed\<close>, which is
  also what register answers, for any profile data, when storage does not answer.
\<close>

theorem register_missing_field:
  assumes "f \<in> set required_profile_fields" and "studentData f = None"
  shows "fst (register cfg rq s email password studentData) =
           (if storage_ok rq 0 \<and> User_findOne s email \<noteq> None
            then Response 400 (Failure ''Email already registered'')
            else Response 500 (Failure ''Registration failed'')) \<and>
         fst (register cfg (rq\<lparr>storage_ok := \<lambda>k. False\<rparr>) s email password studentData') =
           Response 500 (Failure ''Registration failed'')"
proof -
  have down: "fst (register cfg (rq\<lparr>storage_ok := \<lambda>k. False\<rparr>) s email password studentData') =
           Response 500 (Failure ''Registration failed'')"
    by (simp add: register_def create_account_def register_catch_def)
  have "fst (register cfg rq s email password studentData) =
           (if storage_ok rq 0 \<and> User_findOne s email \<noteq> None
            then Response 400 (Failure ''Email already registered'')
            else Response 500 (Failure ''Registration failed''))"
  proof (cases "create_account cfg rq s email password")
    case (Inl r)
    then show ?thesis
      by (auto simp: register_def create_account_def register_catch_def
          split: if_splits option.splits sum.splits)
  next
    case (Inr a)
    obtain u s1 where a: "a = (u, s1)" by (cases a)
    from create_account_Inr [OF Inr [unfolded a]] have "User_findOne s email = None"
      by blast
    moreover from create_profile_missing [where f = f and sd = studentData, OF assms] obtain e where
      "create_profile rq s1 u email studentData = Inl e" by blast
    ultimately show ?thesis
      using Inr a by (simp add: register_def register_catch_def)
  qed
  with down show ?thesis by simp
qed

theorem register_missing_field_witness:
  "''fullName'' \<in> set required_profile_fields \<and>
   (demo_data(''fullName'' := None)) ''fullName'' = None \<and>
   fst (register demo_config (demo_request 1000 11) empty_store ''a@x.com'' (Some ''p1'')
          (demo_data(''fullName'' := None))) =
     Response 500 (Failure ''Registration failed'') \<and>
   fst (register demo_config ((demo_request 1000 11)\<lparr>storage_ok := \<lambda>k. False\<rparr>) empty_store
          ''a@x.com'' (Some ''p1'') demo_data) =
     Response 500 (Failure ''Registration failed'')"
proof -
  have h: "''fullName'' \<in> set required_profile_fields"
    "(demo_data(''fullName'' := None)) ''fullName'' = None"
    by (simp_all add: required_profile_fields_def)
  have free: "User_findOne empty_store ''a@x.com'' = None"
    by (simp add: User_findOne_def empty_store_def)
  show ?thesis
    using h free
      register_missing_field [where f = "''fullName''" and
        studentData = "demo_data(''fullName'' := None)", OF h,
        of demo_config "demo_request 1000 11" empty_store "''a@x.com''" "Some ''p1''" demo_data]
    by simp
qed

section \<open>The account without a profile\<close>

text \<open>
  C5. Whenever the account step of a registration creates the account \<open>u\<close> and the
  profile step then fails (with any exception: a missing \<^verbatim>\<open>skills\<close> string, a
  validation error, a storage error), register answers 500 \<^verbatim>\<open>Registration failed\<close>
  and the store it leaves is the one after the account step: \<open>u\<close> is in it, under the
  given email, and no profile has been added (nothing is rolled back). No profile is
  linked to \<open>u\<close>, provided the new identifier was not already referred to by a profile.
  Every later register with the same email, whatever its password and data, answers 400
  \<^verbatim>\<open>Email already registered\<close> and changes nothing.
\<close>

theorem orphan_account:
  assumes acc: "create_account cfg rq s email password = Inr (u, s1)"
    and prof: "create_profile rq s1 u email studentData = Inl e"
  shows "register cfg rq s email password studentData =
           (Response 500 (Failure ''Registration failed''), s1) \<and>
         users s1 = users s @ [u] \<and> user_email u = email \<and> students s1 = students s \<and>
         ((\<forall>d \<in> set (students s). st_userId d \<noteq> Some (new_user_id rq)) \<longrightarrow>
            Student_findOne s1 (Some (user_id u)) = None) \<and>
         (storage_ok rq' 0 \<longrightarrow>
            register cfg' rq' s1 email password' studentData' =
              (Response 400 (Failure ''Email already registered''), s1))"
proof -
  from create_account_Inr [OF acc] obtain p where
    u: "u = \<lparr>user_id = new_user_id rq, user_email = email,
            user_password = bcrypt_hash cfg p 10 (salt rq), user_role = Student\<rparr>" and
    s1: "s1 = s\<lparr>users := users s @ [u]\<rparr>"
    by blast
  have r: "register cfg rq s email password studentData =
           (Response 500 (Failure ''Registration failed''), s1)"
    using acc prof by (simp add: register_def register_catch_def)
  have none: "Student_findOne s1 (Some (user_id u)) = None"
    if "\<forall>d \<in> set (students s). st_userId d \<noteq> Some (new_user_id rq)"
    using that u s1 by (auto simp: Student_findOne_def find_None_iff)
  have "User_findOne s1 email \<noteq> None"
    unfolding User_findOne_def using u s1 by (intro find_Some_mem [of u]) auto
  then have again: "register cfg' rq' s1 email password' studentData' =
              (Response 400 (Failure ''Email already registered''), s1)"
    if "storage_ok rq' 0"
    using that by (auto simp: register_def create_account_def)
  show ?thesis
    using r none again u s1 by auto
qed

theorem orphan_account_witness:
  "create_account demo_config (demo_request 1000 11) empty_store ''a@x.com'' (Some ''p1'') =
     Inr (demo_user, orphan_store) \<and>
   create_profile (demo_request 1000 11) orphan_store demo_user ''a@x.com''
     (demo_data(''fullName'' := None)) = Inl ValidationError \<and>
   register demo_config (demo_request 1000 11) empty_store ''a@x.com'' (Some ''p1'')
       (demo_data(''fullName'' := None)) =
     (Response 500 (Failure ''Registration failed''), orphan_store) \<and>
   users orphan_store = [demo_user] \<and>
   Student_findOne orphan_store (Some (user_id demo_user)) = None \<and>
   register demo_config (demo_request 2000 12) orphan_store ''a@x.com'' (Some ''p2'') demo_data =
     (Response 400 (Failure ''Email already registered''), orphan_store)"
proof -
  have up: "storage_ok (demo_request 2000 12) 0"
    by (simp add: demo_defs)
  have fresh: "\<forall>d \<in> set (students empty_store). st_userId d \<noteq> Some (new_user_id (demo_request 1000 11))"
    by (simp add: demo_defs)
  show ?thesis
    using create_account_demo create_profile_no_name up fresh
      orphan_account [OF create_account_demo create_profile_no_name,
        of "demo_request 2000 12" demo_config "Some ''p2''" demo_data]
    by (simp add: empty_store_def)
qed

section \<open>Skills and project of a new profile\<close>

text \<open>
  C6. After every successful register, the store holds one profile more, linked to the
  new account; its skills are the skills input cut at the commas, each piece trimmed,
  the empty pieces dropped, in the input's order (\<open>spec_skills\<close>), so that every stored
  skill is non-empty, begins and ends with a character that is no white space, and holds
  no comma; its project is the project input when the department input is \<^verbatim>\<open>IT\<close>,
  and is absent for every other department, whatever project was supplied.
\<close>

theorem register_skills_project:
  assumes "register cfg rq s email password studentData = (Response 200 pl, s')"
  shows "\<exists>sk d. studentData ''skills'' = Some sk \<and> students s' = students s @ [d] \<and>
           st_userId d = Some (new_user_id rq) \<and>
           st_skills d = Some (map Some (spec_skills sk)) \<and>
           (\<forall>x \<in> set (spec_skills sk).
              x \<noteq> [] \<and> \<not> spec_white_space (hd x) \<and> \<not> spec_white_space (last x) \<and>
              CHR '','' \<notin> set x) \<and>
           (studentData ''department'' = Some ''IT'' \<longrightarrow>
              st_project d = studentData ''project'') \<and>
           (studentData ''department'' \<noteq> Some ''IT'' \<longrightarrow> st_project d = None)"
proof -
  from register_200 [OF assms] obtain u s1 d where
    acc: "create_account cfg rq s email password = Inr (u, s1)" and
    prof: "create_profile rq s1 u email studentData = Inr (d, s')"
    by blast
  from create_account_Inr [OF acc] have
    u: "user_id u = new_user_id rq" and s1: "students s1 = students s"
    by auto
  from prof obtain sk where sk: "studentData ''skills'' = Some sk"
    by (auto simp: create_profile_def student_literal_def split: option.splits)
  from prof sk have d: "students s' = students s1 @ [d]"
    "st_userId d = Some (user_id u)" "st_skills d = Some (map Some (parse_skills sk))"
    "st_project d =
       (if studentData ''department'' = Some ''IT'' then studentData ''project'' else None)"
    by (auto simp: create_profile_def student_literal_def Student_create_def Let_def
        split: if_splits)
  have pieces: "\<forall>x \<in> set (spec_skills sk).
      x \<noteq> [] \<and> \<not> spec_white_space (hd x) \<and> \<not> spec_white_space (last x) \<and>
      CHR '','' \<notin> set x"
    using parse_skills_pieces [of _ sk] by (simp add: parse_skills_spec)
  show ?thesis
    using sk d u s1 pieces by (auto simp: parse_skills_spec)
qed

theorem register_skills_project_witness:
  "register demo_config (demo_request 1000 11) empty_store ''a@x.com'' (Some ''p1'') demo_data =
     (Response 200 (RegisterOk (demo_token 1) demo_view), demo_store) \<and>
   demo_data ''skills'' = Some ''go, rust, c'' \<and> demo_data ''department'' = Some ''IT'' \<and>
   demo_data ''project'' = Some ''Alpha'' \<and>
   students demo_store = [demo_student] \<and>
   st_skills demo_student = Some (map Some (spec_skills ''go, rust, c'')) \<and>
   st_skills demo_student = Some [Some ''go'', Some ''rust'', Some ''c''] \<and>
   st_project demo_student = Some ''Alpha'' \<and>
   register demo_config (demo_request 1000 11) empty_store ''a@x.com'' (Some ''p1'') hr_data =
     (Response 200 (RegisterOk (demo_token 1) demo_view),
      \<lparr>users = [demo_user], students = [hr_student]\<rparr>) \<and>
   hr_data ''department'' = Some ''HR'' \<and> hr_data ''project'' = Some ''Alpha'' \<and>
   st_project hr_student = None \<and>
   register demo_config (demo_request 1000 11) empty_store ''a@x.com'' (Some ''p1'') spaced_data =
     (Response 200 (RegisterOk (demo_token 1) demo_view),
      \<lparr>users = [demo_user], students = [spaced_student]\<rparr>) \<and>
   spaced_data ''skills'' = Some spaced_skills \<and>
   st_skills spaced_student = Some (map Some (spec_skills spaced_skills)) \<and>
   st_skills spaced_student = Some [Some ''a'', Some ''b c'']"
proof -
  from register_skills_project [OF register_demo] obtain sk d where
    "demo_data ''skills'' = Some sk" "students demo_store = students empty_store @ [d]"
    "st_skills d = Some (map Some (spec_skills sk))"
    "demo_data ''department'' = Some ''IT'' \<longrightarrow> st_project d = demo_data ''project''"
    by blast
  then have it: "st_skills demo_student = Some (map Some (spec_skills ''go, rust, c''))"
    "st_project demo_student = Some ''Alpha''"
    by (auto simp: demo_defs)
  from register_skills_project [OF register_hr] obtain sk' d' where
    "hr_data ''skills'' = Some sk'"
    "students \<lparr>users = [demo_user], students = [hr_student]\<rparr> = students empty_store @ [d']"
    "hr_data ''department'' \<noteq> Some ''IT'' \<longrightarrow> st_project d' = None"
    by blast
  then have hr: "st_project hr_student = None"
    by (auto simp: demo_defs more_defs)
  from register_skills_project [OF register_spaced] obtain sk'' d'' where
    "spaced_data ''skills'' = Some sk''"
    "students \<lparr>users = [demo_user], students = [spaced_student]\<rparr> =
       students empty_store @ [d'']"
    "st_skills d'' = Some (map Some (spec_skills sk''))"
    by blast
  then have sp: "st_skills spaced_student = Some (map Some (spec_skills spaced_skills))"
    by (auto simp: demo_defs spaced_data_def)
  show ?thesis
    using register_demo register_hr register_spaced it hr sp
    by (simp add: demo_defs more_defs spaced_data_def spaced_student_def)
qed

section \<open>The role of a registered account\<close>

text \<open>
  C10. For every register input: register adds at most one account, and an account it
  adds has role student, so every admin account of the resulting store was there before;
  a token it issues carries role student, and so does the account view beside it; and
  request bodies that agree on the eleven keys the handler reads get the same response
  and leave the same store, so no other key of the body, a \<^verbatim>\<open>role\<close> key included, has
  any influence.
\<close>

theorem register_role_student:
  assumes "register cfg rq s email password studentData = (r, s')"
  shows "(users s' = users s \<or> (\<exists>u. users s' = users s @ [u] \<and> user_role u = Student)) \<and>
         (\<forall>u \<in> set (users s'). user_role u = Admin \<longrightarrow> u \<in> set (users s)) \<and>
         (\<forall>t v. r = Response 200 (RegisterOk t v) \<longrightarrow>
            tok_role t = Student \<and> view_role v = Student) \<and>
         (\<forall>studentData'. (\<forall>k \<in> set read_fields. studentData' k = studentData k) \<longrightarrow>
            register cfg rq s email password studentData' = (r, s'))"
proof -
  have users: "users s' = users s \<or> (\<exists>u. users s' = users s @ [u] \<and> user_role u = Student)"
    using register_users [OF assms] by (auto dest!: create_account_Inr)
  then have admin: "\<forall>u \<in> set (users s'). user_role u = Admin \<longrightarrow> u \<in> set (users s)"
    by auto
  have tok: "tok_role t = Student \<and> view_role v = Student"
    if "r = Response 200 (RegisterOk t v)" for t v
  proof -
    from register_200 [OF assms [unfolded that]] obtain u s1 where
      acc: "create_account cfg rq s email password = Inr (u, s1)" and
      t: "jwt_sign cfg rq (user_id u) (user_role u) = Inr t" and
      v: "v = public_view u"
      by auto
    from create_account_Inr [OF acc] have "user_role u = Student" by auto
    with t v show ?thesis
      by (auto simp: jwt_sign_def public_view_def split: option.splits if_splits)
  qed
  have same: "register cfg rq s email password studentData' = (r, s')"
    if "\<forall>k \<in> set read_fields. studentData' k = studentData k" for studentData'
    using assms unfolding register_def create_profile_cong [OF that] .
  show ?thesis
    using users admin tok same by blast
qed


theorem register_role_student_witness:
  "register demo_config (demo_request 1000 11) empty_store ''a@x.com'' (Some ''p1'') demo_data =
     (Response 200 (RegisterOk (demo_token 1) demo_view), demo_store) \<and>
   users demo_store = users empty_store @ [demo_user] \<and> user_role demo_user = Student \<and>
   tok_role (demo_token 1) = Student \<and> view_role demo_view = Student \<and>
   (demo_data(''role'' \<mapsto> ''admin'')) ''role'' = Some ''admin'' \<and>
   register demo_config (demo_request 1000 11) empty_store ''a@x.com'' (Some ''p1'')
       (demo_data(''role'' \<mapsto> ''admin'')) =
     (Response 200 (RegisterOk (demo_token 1) demo_view), demo_store)"
proof -
  have same: "\<forall>k \<in> set read_fields. (demo_data(''role'' \<mapsto> ''admin'')) k = demo_data k"
    by (simp add: read_fields_def)
  from register_role_student [OF register_demo] same
  have "register demo_config (demo_request 1000 11) empty_store ''a@x.com'' (Some ''p1'')
       (demo_data(''role'' \<mapsto> ''admin'')) =
     (Response 200 (RegisterOk (demo_token 1) demo_view), demo_store)"
    by blast
  then show ?thesis
    using register_demo by (simp add: demo_defs)
qed



section \<open>Updating a profile\<close>

text \<open>
  C7, as written, fails in five ways. The handler sets \<^verbatim>\<open>updatedAt\<close> to the current
  time and compares it with nothing: an update at time 2000 whose body names a
  \<^verbatim>\<open>createdAt\<close> of 5000 leaves \<^verbatim>\<open>updatedAt\<close> before \<^verbatim>\<open>createdAt\<close>, and an update
  in the millisecond of the creation leaves the two equal. A body that names
  \<^verbatim>\<open>fullName\<close> under \<^verbatim>\<open>$set\<close> only changes a field that the body itself does not
  have. A body whose \<^verbatim>\<open>createdAt\<close> is a number that is no date is answered 500
  \<^verbatim>\<open>Update failed\<close> and overwrites nothing. An identifier that is no \<^verbatim>\<open>ObjectId\<close>
  is answered 500, not 404.
\<close>

theorem update_createdAt_later_counterexample:
  "update_student demo_config (demo_request 2000 12) demo_store first_id late_body =
     (Response 200 (StudentOk (redated_student 5000)),
      \<lparr>users = [demo_user], students = [redated_student 5000]\<rparr>) \<and>
   st_createdAt (redated_student 5000) = Some 5000 \<and>
   st_updatedAt (redated_student 5000) = Some 2000 \<and>
   update_student demo_config (demo_request 1000 12) demo_store first_id rename_body =
     (Response 200 (StudentOk same_time_student),
      \<lparr>users = [demo_user], students = [same_time_student]\<rparr>) \<and>
   st_createdAt same_time_student = Some 1000 \<and>
   st_updatedAt same_time_student = Some 1000 \<and>
   obj_get set_name_body ''fullName'' = None \<and>
   st_fullName demo_student = Some ''Ann'' \<and>
   update_student demo_config (demo_request 2000 12) demo_store first_id set_name_body =
     (Response 200 (StudentOk renamed_student),
      \<lparr>users = [demo_user], students = [renamed_student]\<rparr>) \<and>
   st_fullName renamed_student = Some ''Ann B'' \<and>
   update_student demo_config (demo_request 2000 12) demo_store first_id no_date_body =
     (Response 500 (Failure ''Update failed''), demo_store) \<and>
   update_student demo_config (demo_request 2000 12) demo_store malformed_id rename_body =
     (Response 500 (Failure ''Update failed''), demo_store)"
  using update_late update_same_time update_set_name update_no_date update_malformed
  by (simp add: demo_defs patch_defs body_defs obj_get_def)

text \<open>
  C7, amended. Let the path give a well-formed identifier, let the body name paths of the
  schema only, with values that are not objects, and let storage answer. When the value of
  some named path other than \<^verbatim>\<open>updatedAt\<close> does not cast to the type of its path,
  update answers 500 \<^verbatim>\<open>Update failed\<close> and changes nothing. Otherwise, when no profile
  is linked to the account, update answers 404 \<^verbatim>\<open>Student not found\<close> and changes
  nothing; and when one is, update changes the first such profile, and that document only,
  and returns it as stored: every path the body names, other than \<^verbatim>\<open>updatedAt\<close>, holds
  the cast of the body's value; every path the body does not name holds what it held; the
  identifier is kept; \<^verbatim>\<open>updatedAt\<close> is the current time, and so strictly later than
  \<^verbatim>\<open>createdAt\<close> when the body names no \<^verbatim>\<open>createdAt\<close> and the stored one lies before
  the current time. An identifier that is not well-formed is answered 500.
\<close>

theorem update_student_merge:
  assumes id: "cast_ObjectId cfg (JStr userId) = Some uid"
    and plain: "plain_members body"
    and up: "storage_ok rq 0"
  shows "(cast_ObjectId cfg (JStr userId') = None \<longrightarrow>
            update_student cfg rq s userId' body' = (Response 500 (Failure ''Update failed''), s)) \<and>
         (\<not> update_castable cfg body \<longrightarrow>
            update_student cfg rq s userId body = (Response 500 (Failure ''Update failed''), s)) \<and>
         (update_castable cfg body \<and> Student_findOne s uid = None \<longrightarrow>
            update_student cfg rq s userId body =
              (Response 404 (Failure ''Student not found''), s)) \<and>
         (\<forall>d. update_castable cfg body \<and> Student_findOne s uid = Some d \<longrightarrow>
            (\<exists>d' i. update_student cfg rq s userId body =
                      (Response 200 (StudentOk d'), s\<lparr>students := (students s)[i := d']\<rparr>) \<and>
               i < length (students s) \<and> students s ! i = d \<and>
               st_id d' = st_id d \<and>
               st_updatedAt d' = Some (now rq) \<and>
               assigned (cast_ObjectId cfg) body ''userId'' (st_userId d) (st_userId d') \<and>
               assigned (cast_String cfg) body ''email'' (st_email d) (st_email d') \<and>
               assigned (cast_String cfg) body ''fullName'' (st_fullName d) (st_fullName d') \<and>
               assigned (cast_String cfg) body ''department''
                 (st_department d) (st_department d') \<and>
               assigned (cast_String cfg) body ''project'' (st_project d) (st_project d') \<and>
               assigned (cast_Strings cfg) body ''skills'' (st_skills d) (st_skills d') \<and>
               assigned (cast_String cfg) body ''school'' (st_school d) (st_school d') \<and>
               assigned (cast_String cfg) body ''course'' (st_course d) (st_course d') \<and>
               assigned (cast_String cfg) body ''yearLevel''
                 (st_yearLevel d) (st_yearLevel d') \<and>
               assigned (cast_String cfg) body ''contactNumber''
                 (st_contactNumber d) (st_contactNumber d') \<and>
               assigned (cast_String cfg) body ''address'' (st_address d) (st_address d') \<and>
               assigned (cast_String cfg) body ''startDate''
                 (st_startDate d) (st_startDate d') \<and>
               assigned (cast_String cfg) body ''endDate'' (st_endDate d) (st_endDate d') \<and>
               assigned (cast_Date cfg) body ''createdAt'' (st_createdAt d) (st_createdAt d') \<and>
               (\<forall>t. obj_get body ''createdAt'' = None \<and> st_createdAt d = Some t \<and>
                    t < now rq \<longrightarrow>
                  st_createdAt d' = Some t \<and> st_updatedAt d' = Some (now rq) \<and> t < now rq)))"
proof (intro conjI allI impI; (elim conjE)?)
  assume "cast_ObjectId cfg (JStr userId') = None"
  then show "update_student cfg rq s userId' body' =
      (Response 500 (Failure ''Update failed''), s)"
    by (simp add: update_student_def)
next
  assume "\<not> update_castable cfg body"
  then show "update_student cfg rq s userId body =
      (Response 500 (Failure ''Update failed''), s)"
    using id by (simp add: update_student_def cast_update_plain [OF plain])
next
  assume "update_castable cfg body" "Student_findOne s uid = None"
  then show "update_student cfg rq s userId body =
      (Response 404 (Failure ''Student not found''), s)"
    using id up by (simp add: update_student_def cast_update_plain [OF plain])
next
  fix d
  assume ok: "update_castable cfg body" and found: "Student_findOne s uid = Some d"
  define d' where "d' = apply_set cfg body (now rq) d"
  from found obtain i where i: "i < length (students s)" "students s ! i = d"
    "update_first (\<lambda>x. st_userId x = uid) (\<lambda>x. d') (students s) = (students s)[i := d']"
    unfolding Student_findOne_def by (blast dest: update_first_nth)
  have run: "update_student cfg rq s userId body =
      (Response 200 (StudentOk d'), s\<lparr>students := (students s)[i := d']\<rparr>)"
    using id up ok found i(3)
    by (simp add: update_student_def cast_update_plain [OF plain] d'_def)
  have fields: "st_id d' = st_id d" "st_updatedAt d' = Some (now rq)"
    by (simp_all add: d'_def apply_set_def)
  have paths:
    "assigned (cast_ObjectId cfg) body ''userId'' (st_userId d) (st_userId d')"
    "assigned (cast_String cfg) body ''email'' (st_email d) (st_email d')"
    "assigned (cast_String cfg) body ''fullName'' (st_fullName d) (st_fullName d')"
    "assigned (cast_String cfg) body ''department'' (st_department d) (st_department d')"
    "assigned (cast_String cfg) body ''project'' (st_project d) (st_project d')"
    "assigned (cast_Strings cfg) body ''skills'' (st_skills d) (st_skills d')"
    "assigned (cast_String cfg) body ''school'' (st_school d) (st_school d')"
    "assigned (cast_String cfg) body ''course'' (st_course d) (st_course d')"
    "assigned (cast_String cfg) body ''yearLevel'' (st_yearLevel d) (st_yearLevel d')"
    "assigned (cast_String cfg) body ''contactNumber''
       (st_contactNumber d) (st_contactNumber d')"
    "assigned (cast_String cfg) body ''address'' (st_address d) (st_address d')"
    "assigned (cast_String cfg) body ''startDate'' (st_startDate d) (st_startDate d')"
    "assigned (cast_String cfg) body ''endDate'' (st_endDate d) (st_endDate d')"
    "assigned (cast_Date cfg) body ''createdAt'' (st_createdAt d) (st_createdAt d')"
    using ok unfolding update_castable_def d'_def apply_set_def
    by (simp_all add: apply_set_assigned)
  have later: "\<forall>t. obj_get body ''createdAt'' = None \<and> st_createdAt d = Some t \<and>
                    t < now rq \<longrightarrow>
                  st_createdAt d' = Some t \<and> st_updatedAt d' = Some (now rq) \<and> t < now rq"
    using paths(14) fields(2) by (auto simp: assigned_def)
  show "\<exists>d' i. update_student cfg rq s userId body =
                      (Response 200 (StudentOk d'), s\<lparr>students := (students s)[i := d']\<rparr>) \<and>
               i < length (students s) \<and> students s ! i = d \<and>
               st_id d' = st_id d \<and>
               st_updatedAt d' = Some (now rq) \<and>
               assigned (cast_ObjectId cfg) body ''userId'' (st_userId d) (st_userId d') \<and>
               assigned (cast_String cfg) body ''email'' (st_email d) (st_email d') \<and>
               assigned (cast_String cfg) body ''fullName'' (st_fullName d) (st_fullName d') \<and>
               assigned (cast_String cfg) body ''department''
                 (st_department d) (st_department d') \<and>
               assigned (cast_String cfg) body ''project'' (st_project d) (st_project d') \<and>
               assigned (cast_Strings cfg) body ''skills'' (st_skills d) (st_skills d') \<and>
               assigned (cast_String cfg) body ''school'' (st_school d) (st_school d') \<and>
               assigned (cast_String cfg) body ''course'' (st_course d) (st_course d') \<and>
               assigned (cast_String cfg) body ''yearLevel''
                 (st_yearLevel d) (st_yearLevel d') \<and>
               assigned (cast_String cfg) body ''contactNumber''
                 (st_contactNumber d) (st_contactNumber d') \<and>
               assigned (cast_String cfg) body ''address'' (st_address d) (st_address d') \<and>
               assigned (cast_String cfg) body ''startDate''
                 (st_startDate d) (st_startDate d') \<and>
               assigned (cast_String cfg) body ''endDate'' (st_endDate d) (st_endDate d') \<and>
               assigned (cast_Date cfg) body ''createdAt'' (st_createdAt d) (st_createdAt d') \<and>
               (\<forall>t. obj_get body ''createdAt'' = None \<and> st_createdAt d = Some t \<and>
                    t < now rq \<longrightarrow>
                  st_createdAt d' = Some t \<and> st_updatedAt d' = Some (now rq) \<and> t < now rq)"
    using run i(1,2) fields paths later
    by (intro exI [of _ d'] exI [of _ i]) (simp only: simp_thms)
qed



theorem update_student_merge_witness:
  "cast_ObjectId demo_config (JStr first_id) = Some (Some 11) \<and>
   plain_members rename_body \<and>
   storage_ok (demo_request 2000 12) 0 \<and>
   update_castable demo_config rename_body \<and>
   Student_findOne demo_store (Some 11) = Some demo_student \<and>
   update_student demo_config (demo_request 2000 12) demo_store first_id rename_body =
     (Response 200 (StudentOk renamed_student),
      \<lparr>users = [demo_user], students = [renamed_student]\<rparr>) \<and>
   st_fullName renamed_student = Some ''Ann B'' \<and>
   st_createdAt renamed_student = Some 1000 \<and>
   st_updatedAt renamed_student = Some 2000 \<and>
   cast_ObjectId demo_config (JStr unknown_id) = Some (Some 99) \<and>
   Student_findOne demo_store (Some 99) = None \<and>
   update_student demo_config (demo_request 2000 12) demo_store unknown_id rename_body =
     (Response 404 (Failure ''Student not found''), demo_store) \<and>
   plain_members no_date_body \<and>
   update_student demo_config (demo_request 2000 12) demo_store first_id no_date_body =
     (Response 500 (Failure ''Update failed''), demo_store)"
proof -
  have up: "storage_ok (demo_request 2000 12) 0"
    by (simp add: demo_defs)
  have plain: "plain_members rename_body" "plain_members no_date_body"
    by (simp_all add: plain_members_def declared_paths_def is_object_def patch_defs body_defs)
  have ok: "update_castable demo_config rename_body"
    and bad: "\<not> update_castable demo_config no_date_body"
    by (simp_all add: update_castable_def path_change_def obj_get_def patch_defs body_defs
        demo_config_def demo_cast_String_def demo_cast_Date_def)
  have found: "Student_findOne demo_store (Some 11) = Some demo_student"
    and none: "Student_findOne demo_store (Some 99) = None"
    by (simp_all add: Student_findOne_def demo_defs)
  from update_student_merge [OF cast_first_id plain(1) up, where s = demo_store] ok found
  have "\<exists>d' i. update_student demo_config (demo_request 2000 12) demo_store first_id
        rename_body =
          (Response 200 (StudentOk d'), demo_store\<lparr>students := (students demo_store)[i := d']\<rparr>) \<and>
      st_updatedAt d' = Some (now (demo_request 2000 12)) \<and>
      assigned (cast_String demo_config) rename_body ''fullName''
        (st_fullName demo_student) (st_fullName d') \<and>
      assigned (cast_Date demo_config) rename_body ''createdAt''
        (st_createdAt demo_student) (st_createdAt d')"
    by blast
  then obtain d' i where
    run: "update_student demo_config (demo_request 2000 12) demo_store first_id rename_body =
      (Response 200 (StudentOk d'), demo_store\<lparr>students := (students demo_store)[i := d']\<rparr>)"
    and updated: "st_updatedAt d' = Some (now (demo_request 2000 12))"
    and name: "assigned (cast_String demo_config) rename_body ''fullName''
      (st_fullName demo_student) (st_fullName d')"
    and created: "assigned (cast_Date demo_config) rename_body ''createdAt''
      (st_createdAt demo_student) (st_createdAt d')"
    by blast
  from run update_rename have d': "d' = renamed_student"
    by simp
  have facts: "st_fullName renamed_student = Some ''Ann B''"
    "st_createdAt renamed_student = Some 1000" "st_updatedAt renamed_student = Some 2000"
    using name created updated unfolding d'
    by (simp_all add: assigned_def obj_get_def patch_defs demo_config_def
        demo_cast_String_def demo_defs)
  from update_student_merge [OF cast_unknown_id plain(1) up, where s = demo_store] ok none
  have miss: "update_student demo_config (demo_request 2000 12) demo_store unknown_id
      rename_body = (Response 404 (Failure ''Student not found''), demo_store)"
    by blast
  from update_student_merge [OF cast_first_id plain(2) up, where s = demo_store] bad
  have fail: "update_student demo_config (demo_request 2000 12) demo_store first_id
      no_date_body = (Response 500 (Failure ''Update failed''), demo_store)"
    by blast
  show ?thesis
    using cast_first_id cast_unknown_id plain up ok found none update_rename facts miss fail
    by simp
qed

section \<open>The creation date under updates\<close>

text \<open>
  C8, as written, fails: \<^verbatim>\<open>createdAt\<close> is a plain \<^verbatim>\<open>Date\<close> path of the schema, and
  an update whose body names it, at top level or under \<^verbatim>\<open>$set\<close>, overwrites the stored
  value.
\<close>

theorem update_overwrites_createdAt_counterexample:
  "students demo_store = [demo_student] \<and> st_createdAt demo_student = Some 1000 \<and>
   update_student demo_config (demo_request 2000 12) demo_store first_id epoch_body =
     (Response 200 (StudentOk (redated_student 0)),
      \<lparr>users = [demo_user], students = [redated_student 0]\<rparr>) \<and>
   st_createdAt (redated_student 0) = Some 0 \<and>
   obj_get set_date_body ''createdAt'' = None \<and>
   update_student demo_config (demo_request 2000 12) demo_store first_id set_date_body =
     (Response 200 (StudentOk (redated_student 0)),
      \<lparr>users = [demo_user], students = [redated_student 0]\<rparr>)"
  using update_epoch update_set_date
  by (simp add: demo_defs patch_defs obj_get_def)

text \<open>
  C8, amended. An update whose body names paths of the schema only, with values that are
  not objects, and does not name \<^verbatim>\<open>createdAt\<close> leaves the \<^verbatim>\<open>createdAt\<close> of every
  stored profile as it was, and the profile it returns has the \<^verbatim>\<open>createdAt\<close> that the
  profile had before.
\<close>

theorem update_keeps_createdAt:
  assumes plain: "plain_members body"
    and unnamed: "obj_get body ''createdAt'' = None"
  shows "map st_createdAt (students (snd (update_student cfg rq s userId body))) =
           map st_createdAt (students s) \<and>
         (\<forall>uid d d'. cast_ObjectId cfg (JStr userId) = Some uid \<and>
            Student_findOne s uid = Some d \<and>
            fst (update_student cfg rq s userId body) = Response 200 (StudentOk d') \<longrightarrow>
            st_createdAt d' = st_createdAt d)"
proof -
  have keep: "st_createdAt (apply_set cfg body t x) = st_createdAt x" for t x
    using unnamed by (simp add: apply_set_def path_change_def new_value_def)
  have "map st_createdAt (students (snd (update_student cfg rq s userId body))) =
           map st_createdAt (students s)"
    using keep
    by (auto simp: update_student_def cast_update_plain [OF plain] Student_findOne_def
        update_first_same split: option.splits)
  moreover have "st_createdAt d' = st_createdAt d"
    if "cast_ObjectId cfg (JStr userId) = Some uid" "Student_findOne s uid = Some d"
      "fst (update_student cfg rq s userId body) = Response 200 (StudentOk d')" for uid d d'
    using that keep [of "now rq" d]
    by (auto simp: update_student_def cast_update_plain [OF plain] split: if_splits)
  ultimately show ?thesis by blast
qed



theorem update_keeps_createdAt_witness:
  "plain_members rename_body \<and> obj_get rename_body ''createdAt'' = None \<and>
   update_student demo_config (demo_request 2000 12) demo_store first_id rename_body =
     (Response 200 (StudentOk renamed_student),
      \<lparr>users = [demo_user], students = [renamed_student]\<rparr>) \<and>
   map st_createdAt (students \<lparr>users = [demo_user], students = [renamed_student]\<rparr>) =
     map st_createdAt (students demo_store) \<and>
   st_createdAt renamed_student = st_createdAt demo_student"
proof -
  have h: "plain_members rename_body" "obj_get rename_body ''createdAt'' = None"
    by (simp_all add: plain_members_def declared_paths_def is_object_def obj_get_def patch_defs)
  from update_keeps_createdAt [OF h, of demo_config "demo_request 2000 12" demo_store first_id]
    update_rename
  have "map st_createdAt (students \<lparr>users = [demo_user], students = [renamed_student]\<rparr>) =
     map st_createdAt (students demo_store)"
    by simp
  then show ?thesis
    using h update_rename by (simp add: demo_defs)
qed

section \<open>Deleting a student\<close>

text \<open>
  C9, as written, fails in its last clause when another profile is linked to the same
  account. Such a store arises from two registrations and one update whose body names
  \<^verbatim>\<open>userId\<close>; after the deletion of the second profile, the lookup by the deleted
  account's identifier finds the first profile. It fails in its first clause for an
  identifier that is no \<^verbatim>\<open>ObjectId\<close>: the answer is 500 \<^verbatim>\<open>Delete failed\<close>, not 404.
\<close>

theorem delete_shared_account_counterexample:
  "register demo_config (demo_request 1500 12) demo_store ''b@x.com'' (Some ''p2'') demo_data =
     (Response 200 (RegisterOk (demo_token 1\<lparr>tok_userId := 12\<rparr>)
        \<lparr>view_id = 12, view_email = ''b@x.com'', view_role = Student\<rparr>), two_store) \<and>
   update_student demo_config (demo_request 1600 13) two_store first_id relink_body =
     (Response 200 (StudentOk relinked_student), shared_store) \<and>
   Student_findById shared_store (Some 12) = Some second_student \<and>
   st_userId second_student = Some 12 \<and>
   delete_student demo_config (demo_request 1700 14) shared_store second_id =
     (Response 200 Success, left_store) \<and>
   get_student demo_config (demo_request 1800 15) left_store second_id =
     (Response 200 (StudentOk relinked_student), left_store) \<and>
   delete_student demo_config (demo_request 1700 14) demo_store malformed_id =
     (Response 500 (Failure ''Delete failed''), demo_store)"
  using register_second relink delete_shared get_left delete_malformed
  by (simp add: Student_findById_def demo_defs two_defs)

text \<open>
  C9, amended. For a well-formed identifier, delete looks the profile up by its own
  identifier; when there is none it answers 404 \<^verbatim>\<open>Student not found\<close> and changes
  nothing. Otherwise it deletes the linked account first (a storage failure before that
  leaves the store as it was, one after that leaves the account deleted and the profile in
  place) and the profile second, and answers success: the store has lost the first account
  with the linked identifier and the first profile with the given one, and nothing else.
  Where the identifiers of the accounts are unique, no account with the linked identifier
  is left; where those of the profiles are, no profile with the given identifier is left
  and none can be found by it; and where, besides, no other profile is linked to the same
  account, the lookup by the account's identifier answers 404. An identifier that is not
  well-formed is answered 500 \<^verbatim>\<open>Delete failed\<close>.
\<close>

theorem delete_student_cascade:
  assumes id: "cast_ObjectId cfg (JStr studentId) = Some sid"
    and up: "storage_ok rq 0"
  shows "(cast_ObjectId cfg (JStr studentId') = None \<longrightarrow>
            delete_student cfg rq s studentId' = (Response 500 (Failure ''Delete failed''), s)) \<and>
         (Student_findById s sid = None \<longrightarrow>
            delete_student cfg rq s studentId =
              (Response 404 (Failure ''Student not found''), s)) \<and>
         (\<forall>d. Student_findById s sid = Some d \<longrightarrow>
            Some (st_id d) = sid \<and> d \<in> set (students s) \<and>
            (\<not> storage_ok rq 1 \<longrightarrow>
               delete_student cfg rq s studentId =
                 (Response 500 (Failure ''Delete failed''), s)) \<and>
            (storage_ok rq 1 \<and> \<not> storage_ok rq 2 \<longrightarrow>
               delete_student cfg rq s studentId =
                 (Response 500 (Failure ''Delete failed''),
                  s\<lparr>users := remove_first (\<lambda>u. Some (user_id u) = st_userId d) (users s)\<rparr>)) \<and>
            (storage_ok rq 1 \<and> storage_ok rq 2 \<longrightarrow>
               (\<exists>s'. delete_student cfg rq s studentId = (Response 200 Success, s') \<and>
                  users s' = remove_first (\<lambda>u. Some (user_id u) = st_userId d) (users s) \<and>
                  students s' = remove_first (\<lambda>x. Some (st_id x) = sid) (students s) \<and>
                  (distinct (map user_id (users s)) \<longrightarrow>
                     set (users s') = {u \<in> set (users s). Some (user_id u) \<noteq> st_userId d}) \<and>
                  (distinct (map st_id (students s)) \<longrightarrow>
                     set (students s') = {x \<in> set (students s). st_id x \<noteq> st_id d} \<and>
                     Student_findById s' sid = None) \<and>
                  (distinct (map st_id (students s)) \<and>
                   (\<forall>x \<in> set (students s). st_userId x = st_userId d \<longrightarrow> st_id x = st_id d) \<and>
                   cast_ObjectId cfg (JStr userId) = Some (st_userId d) \<and>
                   storage_ok rq' 0 \<longrightarrow>
                     get_student cfg rq' s' userId =
                       (Response 404 (Failure ''Student not found''), s')))))"
proof (intro conjI allI impI; (elim conjE)?)
  assume "cast_ObjectId cfg (JStr studentId') = None"
  then show "delete_student cfg rq s studentId' = (Response 500 (Failure ''Delete failed''), s)"
    by (simp add: delete_student_def)
next
  assume "Student_findById s sid = None"
  then show "delete_student cfg rq s studentId =
      (Response 404 (Failure ''Student not found''), s)"
    using id up by (simp add: delete_student_def)
next
  fix d
  assume "Student_findById s sid = Some d"
  then show "Some (st_id d) = sid" "d \<in> set (students s)"
    by (auto simp: Student_findById_def dest: find_SomeD)
next
  fix d
  assume "Student_findById s sid = Some d" "\<not> storage_ok rq 1"
  then show "delete_student cfg rq s studentId = (Response 500 (Failure ''Delete failed''), s)"
    using id up by (simp add: delete_student_def)
next
  fix d
  assume "Student_findById s sid = Some d" "storage_ok rq 1" "\<not> storage_ok rq 2"
  then show "delete_student cfg rq s studentId =
                 (Response 500 (Failure ''Delete failed''),
                  s\<lparr>users := remove_first (\<lambda>u. Some (user_id u) = st_userId d) (users s)\<rparr>)"
    using id up by (simp add: delete_student_def User_findByIdAndDelete_def)
next
  fix d
  assume found: "Student_findById s sid = Some d"
    and up12: "storage_ok rq 1" "storage_ok rq 2"
  define s' where
    "s' = Student_findByIdAndDelete (User_findByIdAndDelete s (st_userId d)) sid"
  have sid: "sid = Some (st_id d)"
    using found by (auto simp: Student_findById_def dest: find_SomeD)
  have run: "delete_student cfg rq s studentId = (Response 200 Success, s')"
    using id up found up12 by (simp add: delete_student_def s'_def)
  have us: "users s' = remove_first (\<lambda>u. Some (user_id u) = st_userId d) (users s)"
    and st: "students s' = remove_first (\<lambda>x. Some (st_id x) = sid) (students s)"
    by (simp_all add: s'_def Student_findByIdAndDelete_def User_findByIdAndDelete_def)
  have users: "set (users s') = {u \<in> set (users s). Some (user_id u) \<noteq> st_userId d}"
    if "distinct (map user_id (users s))"
    using that by (simp add: us set_remove_first)
  have students: "set (students s') = {x \<in> set (students s). st_id x \<noteq> st_id d}"
    and gone: "Student_findById s' sid = None"
    if "distinct (map st_id (students s))"
    using that
    by (simp_all add: st sid Student_findById_def set_remove_first_id find_remove_first_id)
  have get: "get_student cfg rq' s' userId = (Response 404 (Failure ''Student not found''), s')"
    if ds: "distinct (map st_id (students s))"
      and one: "\<forall>x \<in> set (students s). st_userId x = st_userId d \<longrightarrow> st_id x = st_id d"
      and uid: "cast_ObjectId cfg (JStr userId) = Some (st_userId d)"
      and up': "storage_ok rq' 0"
  proof -
    have "Student_findOne s' (st_userId d) = None"
      using students [OF ds] one by (auto simp: Student_findOne_def find_None_iff)
    then show ?thesis
      using uid up' by (simp add: get_student_def)
  qed
  show "\<exists>s'. delete_student cfg rq s studentId = (Response 200 Success, s') \<and>
                  users s' = remove_first (\<lambda>u. Some (user_id u) = st_userId d) (users s) \<and>
                  students s' = remove_first (\<lambda>x. Some (st_id x) = sid) (students s) \<and>
                  (distinct (map user_id (users s)) \<longrightarrow>
                     set (users s') = {u \<in> set (users s). Some (user_id u) \<noteq> st_userId d}) \<and>
                  (distinct (map st_id (students s)) \<longrightarrow>
                     set (students s') = {x \<in> set (students s). st_id x \<noteq> st_id d} \<and>
                     Student_findById s' sid = None) \<and>
                  (distinct (map st_id (students s)) \<and>
                   (\<forall>x \<in> set (students s). st_userId x = st_userId d \<longrightarrow> st_id x = st_id d) \<and>
                   cast_ObjectId cfg (JStr userId) = Some (st_userId d) \<and>
                   storage_ok rq' 0 \<longrightarrow>
                     get_student cfg rq' s' userId =
                       (Response 404 (Failure ''Student not found''), s'))"
    using run us st users students gone get by (intro exI [of _ s']) blast
qed


theorem delete_student_cascade_witness:
  "cast_ObjectId demo_config (JStr first_id) = Some (Some 11) \<and>
   storage_ok (demo_request 3000 13) 0 \<and>
   Student_findById demo_store (Some 11) = Some demo_student \<and>
   st_userId demo_student = Some 11 \<and>
   distinct (map user_id (users demo_store)) \<and> distinct (map st_id (students demo_store)) \<and>
   delete_student demo_config (demo_request 3000 13) demo_store first_id =
     (Response 200 Success, empty_store) \<and>
   get_student demo_config (demo_request 4000 14) empty_store first_id =
     (Response 404 (Failure ''Student not found''), empty_store) \<and>
   delete_student demo_config (failing_request 2 3000 13) demo_store first_id =
     (Response 500 (Failure ''Delete failed''), \<lparr>users = [], students = [demo_student]\<rparr>) \<and>
   cast_ObjectId demo_config (JStr unknown_id) = Some (Some 99) \<and>
   Student_findById demo_store (Some 99) = None \<and>
   delete_student demo_config (demo_request 3000 13) demo_store unknown_id =
     (Response 404 (Failure ''Student not found''), demo_store)"
proof -
  have up: "storage_ok (demo_request 3000 13) 0" "storage_ok (demo_request 3000 13) 1"
    "storage_ok (demo_request 3000 13) 2" "storage_ok (demo_request 4000 14) 0"
    "storage_ok (failing_request 2 3000 13) 0" "storage_ok (failing_request 2 3000 13) 1"
    "\<not> storage_ok (failing_request 2 3000 13) 2"
    by (simp_all add: demo_defs)
  have found: "Student_findById demo_store (Some 11) = Some demo_student"
    and none: "Student_findById demo_store (Some 99) = None"
    and uid: "st_userId demo_student = Some 11"
    by (simp_all add: Student_findById_def demo_defs)
  have wf: "distinct (map user_id (users demo_store))"
    "distinct (map st_id (students demo_store))"
    "\<forall>x \<in> set (students demo_store).
       st_userId x = st_userId demo_student \<longrightarrow> st_id x = st_id demo_student"
    by (simp_all add: demo_defs)
  have cast: "cast_ObjectId demo_config (JStr first_id) = Some (st_userId demo_student)"
    using cast_first_id uid by simp
  from delete_student_cascade [OF cast_first_id up(1), where s = demo_store and
      userId = first_id and rq' = "demo_request 4000 14"] found wf up(2-4) cast
  obtain s' where run: "delete_student demo_config (demo_request 3000 13) demo_store first_id =
      (Response 200 Success, s')"
    and us: "users s' = remove_first (\<lambda>u. Some (user_id u) = st_userId demo_student)
      (users demo_store)"
    and st: "students s' = remove_first (\<lambda>x. Some (st_id x) = Some 11) (students demo_store)"
    and get: "get_student demo_config (demo_request 4000 14) s' first_id =
       (Response 404 (Failure ''Student not found''), s')"
    by blast
  have "s' = empty_store"
    using us st by (cases s') (simp add: demo_defs)
  with run get have ok: "delete_student demo_config (demo_request 3000 13) demo_store first_id =
      (Response 200 Success, empty_store)"
    "get_student demo_config (demo_request 4000 14) empty_store first_id =
     (Response 404 (Failure ''Student not found''), empty_store)"
    by simp_all
  from delete_student_cascade [OF cast_first_id up(5), where s = demo_store] found up(6,7)
  have "delete_student demo_config (failing_request 2 3000 13) demo_store first_id =
     (Response 500 (Failure ''Delete failed''),
      demo_store\<lparr>users := remove_first (\<lambda>u. Some (user_id u) = st_userId demo_student)
        (users demo_store)\<rparr>)"
    by blast
  then have half: "delete_student demo_config (failing_request 2 3000 13) demo_store first_id =
     (Response 500 (Failure ''Delete failed''), \<lparr>users = [], students = [demo_student]\<rparr>)"
    by (simp add: demo_store_def demo_user_def demo_student_def)
  from delete_student_cascade [OF cast_unknown_id up(1), where s = demo_store] none
  have miss: "delete_student demo_config (demo_request 3000 13) demo_store unknown_id =
     (Response 404 (Failure ''Student not found''), demo_store)"
    by blast
  show ?thesis
    using cast_first_id cast_unknown_id up(1) found uid wf(1,2) ok half none miss by simp
qed


end
